theory Spec2Isabelle
  imports Main
begin

section \<open>The RegisteredCluster controller of compute-operator\<close>

text \<open>
  A shallow embedding of the reconciler of package \<^verbatim>\<open>registeredcluster\<close>. The sources hold
  two generations of the controller file: \<^verbatim>\<open>cluster_registration_controller.go\<close> and the
  file \<^verbatim>\<open>part_001\<close>. A function that reads the same in both is modelled once; a function
  that differs has one definition per file, the one of \<^verbatim>\<open>part_001\<close> with the suffix
  \<open>_part_001\<close>.

  The two API servers (the hub and the compute workspace) are an explicit \<open>world\<close> that
  every function takes and returns. A call to a server is answered from the world unless the
  environment injects an error at that call site: the environment stands for everything the
  reconciler does not control (network failures, conflicts, the suffix the server appends to a
  generated name, the process environment).
\<close>

subsection \<open>Errors\<close>

text \<open>
  \<open>NotFound\<close> is a status error with reason NotFound; \<open>Other\<close> is any other error, with its
  message; \<open>WithStack\<close> is the wrapper of \<^verbatim>\<open>giterrors.WithStack\<close>. \<^verbatim>\<open>k8serrors.IsNotFound\<close> looks
  through the wrapper: Reconcile relies on that when it tests the wrapped error that
  updateImportCommand returns.
\<close>

datatype error = NotFound | Other string | WithStack error

fun IsNotFound :: "error \<Rightarrow> bool" where
  "IsNotFound NotFound = True"
| "IsNotFound (Other _) = False"
| "IsNotFound (WithStack e) = IsNotFound e"

subsection \<open>Constants\<close>

definition RegisteredClusterNamelabel :: string where
  "RegisteredClusterNamelabel = ''registeredcluster.singapore.open-cluster-management.io/name''"

definition RegisteredClusterNamespacelabel :: string where
  "RegisteredClusterNamespacelabel = ''registeredcluster.singapore.open-cluster-management.io/namespace''"

definition RegisteredClusterUidLabel :: string where
  "RegisteredClusterUidLabel = ''registeredcluster.singapore.open-cluster-management.io/uid''"

definition ClusterNameAnnotation :: string where
  "ClusterNameAnnotation = ''registeredcluster.singapore.open-cluster-management.io/clustername''"

definition ManagedClusterSetlabel :: string where
  "ManagedClusterSetlabel = ''cluster.open-cluster-management.io/clusterset''"

definition ManagedServiceAccountName :: string where
  "ManagedServiceAccountName = ''appstudio''"

definition ManagedClusterAddOnName :: string where
  "ManagedClusterAddOnName = ''managed-serviceaccount''"

definition defaultSyncerImage :: string where
  "defaultSyncerImage = ''ghcr.io/kcp-dev/kcp/syncer:v0.6.1''"

definition defaultSyncerImage_part_001 :: string where
  "defaultSyncerImage_part_001 = ''ghcr.io/kcp-dev/kcp/syncer:main''"

text \<open>\<^verbatim>\<open>clusterapiv1.ManagedClusterConditionJoined\<close> and \<^verbatim>\<open>manifestworkv1.ManifestApplied\<close>, the
  condition types of the Open Cluster Management API.\<close>

definition ManagedClusterConditionJoined :: string where
  "ManagedClusterConditionJoined = ''ManagedClusterJoined''"

definition ManifestApplied :: string where
  "ManifestApplied = ''Applied''"

text \<open>Modelled from the spec: \<^verbatim>\<open>helpers.RegisteredClusterFinalizer\<close> is declared in a file that is
  not among the sources. The spec calls it "the finalizer on RegisteredCluster"; only its being
  one fixed string matters here.\<close>

definition RegisteredClusterFinalizer :: string where
  "RegisteredClusterFinalizer = ''registeredcluster.finalizer''"

text \<open>\<^verbatim>\<open>time.Duration\<close> counts nanoseconds.\<close>

type_synonym Duration = int

definition Second :: Duration where
  "Second = 1000000000"

subsection \<open>Package helpers (file part\_000)\<close>

definition ManagedClusterSetNameForWorkspace :: "string \<Rightarrow> string" where
  "ManagedClusterSetNameForWorkspace workspaceName = workspaceName"

definition GetSyncerPrefix :: string where
  "GetSyncerPrefix = ''kcp-syncer''"

definition GetSyncerName :: "string \<Rightarrow> string" where
  "GetSyncerName regClusterName = GetSyncerPrefix @ ''-'' @ regClusterName"

definition GetSyncerServiceAccountName :: string where
  "GetSyncerServiceAccountName = ''kcp-syncer-sa''"

subsection \<open>API objects\<close>

text \<open>
  A Go slice or map that the code tests against \<^verbatim>\<open>nil\<close> is an \<open>option\<close>: \<open>None\<close> is
  \<^verbatim>\<open>nil\<close>, \<open>Some []\<close> the empty slice that is not \<^verbatim>\<open>nil\<close> (what decoding \<^verbatim>\<open>[]\<close> or
  \<^verbatim>\<open>{}\<close> gives). Labels and annotations are only ever indexed, which reads a \<^verbatim>\<open>nil\<close> map as
  an empty one, so they are plain maps.
\<close>

text \<open>\<^verbatim>\<open>metav1.Condition\<close>, with all its six fields. A \<^verbatim>\<open>metav1.Time\<close> is the instant it
  denotes, in seconds since the epoch: \<^verbatim>\<open>equality.Semantic\<close> compares two times as instants
  (both taken to UTC). The observed generation is an \<^verbatim>\<open>int64\<close> that is only ever copied and
  compared.\<close>

datatype ConditionStatus = ConditionTrue | ConditionFalse | ConditionUnknown

type_synonym Time = int

record Condition =
  cond_type :: string
  cond_status :: ConditionStatus
  cond_observedGeneration :: int
  cond_lastTransitionTime :: Time
  cond_reason :: string
  cond_message :: string

text \<open>A \<^verbatim>\<open>resource.Quantity\<close> is the number it denotes, in units of \<open>10\<^sup>-\<^sup>9\<close> (its finest scale):
  \<^verbatim>\<open>equality.Semantic\<close> compares two quantities by \<^verbatim>\<open>Cmp\<close>, that is as numbers.\<close>

type_synonym ResourceList = "(string \<rightharpoonup> int) option"

record ManagedClusterVersion =
  ver_kubernetes :: string

record ClientConfig =
  cc_url :: string
  cc_caBundle :: string

record ManagedClusterStatus =
  mcs_conditions :: "Condition list option"
  mcs_allocatable :: ResourceList
  mcs_capacity :: ResourceList
  mcs_clusterClaims :: "(string \<times> string) list option"
  mcs_version :: ManagedClusterVersion

record ManagedCluster =
  mc_name :: string
  mc_generateName :: string
  mc_labels :: "string \<rightharpoonup> string"
  mc_annotations :: "string \<rightharpoonup> string"
  mc_hubAcceptsClient :: bool
  mc_clientConfigs :: "ClientConfig list"
  mc_status :: ManagedClusterStatus

text \<open>The status of a RegisteredCluster, with the fields the controller assigns
  (\<^verbatim>\<open>Conditions\<close>, \<^verbatim>\<open>Allocatable\<close>, \<^verbatim>\<open>Capacity\<close>, \<^verbatim>\<open>ClusterClaims\<close>, \<^verbatim>\<open>Version\<close>, \<^verbatim>\<open>ApiURL\<close>,
  \<^verbatim>\<open>ClusterID\<close>, \<^verbatim>\<open>ImportCommandRef\<close>); a cluster claim is a name and a value.\<close>

record RegisteredClusterStatus =
  rcs_conditions :: "Condition list option"
  rcs_allocatable :: ResourceList
  rcs_capacity :: ResourceList
  rcs_clusterClaims :: "(string \<times> string) list option"
  rcs_version :: ManagedClusterVersion
  rcs_apiURL :: string
  rcs_clusterID :: string
  rcs_importCommandRef :: string

text \<open>\<open>rc_clusterName\<close> is \<^verbatim>\<open>ObjectMeta.ClusterName\<close>, the logical cluster (workspace) that holds
  the object; \<open>rc_location\<close> is \<^verbatim>\<open>Spec.Location\<close>.\<close>

record RegisteredCluster =
  rc_clusterName :: string
  rc_namespace :: string
  rc_name :: string
  rc_uid :: string
  rc_deletionTimestamp :: "nat option"
  rc_finalizers :: "string list"
  rc_location :: string
  rc_status :: RegisteredClusterStatus

text \<open>\<open>mw_values\<close> holds the values the manifests of the work were rendered from.\<close>

record ManifestWork =
  mw_namespace :: string
  mw_name :: string
  mw_labels :: "string \<rightharpoonup> string"
  mw_conditions :: "Condition list option"
  mw_values :: "(string \<times> string) list"

text \<open>Secrets: the import secret of the hub and the token secrets of a workspace.
  \<open>sec_scope\<close> is the namespace on the hub and the logical cluster in a workspace (where the
  namespace is always \<^verbatim>\<open>default\<close>).\<close>

record Secret =
  sec_scope :: string
  sec_name :: string
  sec_type :: string
  sec_data :: "string \<rightharpoonup> string"

record ServiceAccount =
  sa_scope :: string
  sa_name :: string
  sa_secrets :: "string list"

text \<open>The zero values \<^verbatim>\<open>clusterapiv1.ManagedCluster{}\<close> and \<^verbatim>\<open>ctrl.Result{}\<close>.\<close>

definition empty_ManagedCluster :: ManagedCluster where
  "empty_ManagedCluster =
     \<lparr>mc_name = [], mc_generateName = [], mc_labels = Map.empty, mc_annotations = Map.empty,
      mc_hubAcceptsClient = False, mc_clientConfigs = [],
      mc_status = \<lparr>mcs_conditions = None, mcs_allocatable = None, mcs_capacity = None,
                   mcs_clusterClaims = None, mcs_version = \<lparr>ver_kubernetes = []\<rparr>\<rparr>\<rparr>"

record Result =
  Requeue :: bool
  RequeueAfter :: Duration

definition empty_Result :: Result where
  "empty_Result = \<lparr>Requeue = False, RequeueAfter = 0\<rparr>"

record Request =
  req_clusterName :: string
  req_namespace :: string
  req_name :: string

subsection \<open>The environment and the world\<close>

text \<open>One constructor per call site of the two files that can return an error.\<close>

datatype call =
    Get_RegisteredCluster
  | GetHubCluster
  | Update_AddFinalizer
  | Update_RemoveFinalizer
  | List_ManagedCluster_create
  | Create_ManagedCluster
  | List_ManagedCluster_get
  | Get_ManifestWork_deletion
  | Delete_ManifestWork
  | Get_ManagedServiceAccount
  | Delete_ManagedServiceAccount
  | Get_ManagedClusterAddOn
  | Delete_ManagedClusterAddOn
  | Get_ManagedCluster_deletion
  | Delete_ManagedCluster
  | Get_ImportSecret
  | Marshal_crdsv1
  | Marshal_import
  | Apply_ImportSecret
  | Patch_ImportCommandRef
  | Get_ServiceAccount
  | Create_ServiceAccount
  | Apply_ClusterRole
  | Get_TokenSecret string
  | Parse_ComputeHost
  | Apply_SyncerManifestWork
  | Get_ManifestWork_sync
  | Patch_Status

text \<open>\<open>fault\<close> is the error a call site returns, if any; \<open>generatedSuffix\<close> is what the server
  appends to \<^verbatim>\<open>GenerateName\<close>; \<open>syncerImageEnv\<close> is the variable \<^verbatim>\<open>KCP_SYNCER_IMAGE\<close>;
  \<open>computeScheme\<close> and \<open>computeHost\<close> are the scheme and host of \<^verbatim>\<open>ComputeConfig.Host\<close>.\<close>

record env =
  fault :: "call \<Rightarrow> error option"
  generatedSuffix :: string
  syncerImageEnv :: string
  computeScheme :: string
  computeHost :: string

text \<open>What the reconciler did to the servers and to its worker, oldest first.\<close>

datatype event =
    Updated_RegisteredCluster "string list"
  | Patched_Status RegisteredClusterStatus
  | Created_ManagedCluster string
  | Deleted_ManifestWork string string
  | Deleted_ManagedServiceAccount string string
  | Deleted_ManagedClusterAddOn string string
  | Deleted_ManagedCluster string
  | Applied "string list" "(string \<times> string) list"
  | Created_ServiceAccount string string
  | Slept Duration

record world =
  w_registeredClusters :: "RegisteredCluster list"
  w_managedClusters :: "ManagedCluster list"
  w_manifestWorks :: "ManifestWork list"
  w_managedServiceAccounts :: "(string \<times> string) list"
  w_managedClusterAddOns :: "(string \<times> string) list"
  w_hubSecrets :: "Secret list"
  w_serviceAccounts :: "ServiceAccount list"
  w_workspaceSecrets :: "Secret list"
  w_trace :: "event list"

definition emit :: "event \<Rightarrow> world \<Rightarrow> world" where
  "emit ev w = w\<lparr>w_trace := w_trace w @ [ev]\<rparr>"

subsection \<open>The hub client: ManagedClusters\<close>

text \<open>\<^verbatim>\<open>client.MatchingLabels\<close>: an object is selected when it carries every label of the
  selector with the selector's value. The selector is a Go map literal with distinct keys,
  written here as the list of its entries.\<close>

definition matchesLabels :: "(string \<times> string) list \<Rightarrow> (string \<rightharpoonup> string) \<Rightarrow> bool" where
  "matchesLabels sel lbls = list_all (\<lambda>(k, v). lbls k = Some v) sel"

text \<open>The ManagedClusters of the hub that a selector selects, in the order the server lists
  them.\<close>

definition selected :: "(string \<times> string) list \<Rightarrow> world \<Rightarrow> ManagedCluster list" where
  "selected sel w = filter (\<lambda>m. matchesLabels sel (mc_labels m)) (w_managedClusters w)"

definition List_ManagedClusters ::
  "env \<Rightarrow> call \<Rightarrow> (string \<times> string) list \<Rightarrow> world \<Rightarrow> error + ManagedCluster list" where
  "List_ManagedClusters en c sel w =
     (case fault en c of
        Some e \<Rightarrow> Inl e
      | None \<Rightarrow> Inr (selected sel w))"

text \<open>Create: the server names the object \<^verbatim>\<open>GenerateName\<close> plus a suffix of its choice when the
  object has no name, and refuses a name that is taken.\<close>

definition Create_ManagedCluster_call :: "env \<Rightarrow> ManagedCluster \<Rightarrow> world \<Rightarrow> error option \<times> world" where
  "Create_ManagedCluster_call en m w =
     (case fault en Create_ManagedCluster of
        Some e \<Rightarrow> (Some e, w)
      | None \<Rightarrow>
          (let name = (if mc_name m = [] then mc_generateName m @ generatedSuffix en else mc_name m)
           in if list_ex (\<lambda>x. mc_name x = name) (w_managedClusters w)
              then (Some (Other ''already exists''), w)
              else (None, emit (Created_ManagedCluster name)
                            (w\<lparr>w_managedClusters := w_managedClusters w @ [m\<lparr>mc_name := name\<rparr>]\<rparr>))))"

subsection \<open>getRegisteredClusterLabels, createManagedCluster, getManagedCluster\<close>

definition getRegisteredClusterLabels :: "RegisteredCluster \<Rightarrow> string \<Rightarrow> (string \<times> string) list" where
  "getRegisteredClusterLabels regCluster clusterName =
     [(RegisteredClusterNamelabel, rc_name regCluster),
      (RegisteredClusterNamespacelabel, rc_namespace regCluster),
      (RegisteredClusterUidLabel, rc_uid regCluster),
      (ManagedClusterSetlabel, ManagedClusterSetNameForWorkspace clusterName)]"

text \<open>The selector that \<^verbatim>\<open>part_001\<close> writes out at both of its List calls.\<close>

definition correlationLabels_part_001 :: "RegisteredCluster \<Rightarrow> (string \<times> string) list" where
  "correlationLabels_part_001 regCluster =
     [(RegisteredClusterNamelabel, rc_name regCluster),
      (RegisteredClusterNamespacelabel, rc_namespace regCluster)]"

definition createManagedCluster ::
  "env \<Rightarrow> RegisteredCluster \<Rightarrow> string \<Rightarrow> world \<Rightarrow> error option \<times> world" where
  "createManagedCluster en regCluster clusterName w =
     (let labels = getRegisteredClusterLabels regCluster clusterName in
      case List_ManagedClusters en List_ManagedCluster_create labels w of
        Inl err \<Rightarrow> (Some (WithStack err), w)
      | Inr items \<Rightarrow>
          if length items < 1 then
            (let managedCluster = empty_ManagedCluster
                   \<lparr>mc_generateName := ''registered-cluster-'',
                    mc_labels := map_of labels,
                    mc_annotations := [''open-cluster-management/service-name'' \<mapsto> ''compute'',
                                       ClusterNameAnnotation \<mapsto> clusterName],
                    mc_hubAcceptsClient := True\<rparr>
             in case Create_ManagedCluster_call en managedCluster w of
                  (Some err, w') \<Rightarrow> (Some (WithStack err), w')
                | (None, w') \<Rightarrow> (None, w'))
          else (None, w))"

definition createManagedCluster_part_001 ::
  "env \<Rightarrow> RegisteredCluster \<Rightarrow> world \<Rightarrow> error option \<times> world" where
  "createManagedCluster_part_001 en regCluster w =
     (case List_ManagedClusters en List_ManagedCluster_create (correlationLabels_part_001 regCluster) w of
        Inl err \<Rightarrow> (Some (WithStack err), w)
      | Inr items \<Rightarrow>
          (let mcsName = ManagedClusterSetNameForWorkspace (rc_namespace regCluster) in
           if length items < 1 then
             (let managedCluster = empty_ManagedCluster
                    \<lparr>mc_generateName := ''registered-cluster-'',
                     mc_labels := [RegisteredClusterNamelabel \<mapsto> rc_name regCluster,
                                   RegisteredClusterNamespacelabel \<mapsto> rc_namespace regCluster,
                                   ManagedClusterSetlabel \<mapsto> mcsName],
                     mc_annotations := [''open-cluster-management/service-name'' \<mapsto> ''compute''],
                     mc_hubAcceptsClient := True\<rparr>
              in case Create_ManagedCluster_call en managedCluster w of
                   (Some err, w') \<Rightarrow> (Some (WithStack err), w')
                 | (None, w') \<Rightarrow> (None, w'))
           else (None, w)))"

text \<open>getManagedCluster returns its two Go results as a pair: Reconcile goes on with the
  returned (empty) object when the error is a NotFound.\<close>

definition getManagedCluster ::
  "env \<Rightarrow> RegisteredCluster \<Rightarrow> string \<Rightarrow> world \<Rightarrow> ManagedCluster \<times> error option" where
  "getManagedCluster en regCluster clusterName w =
     (let managedCluster = empty_ManagedCluster in
      case List_ManagedClusters en List_ManagedCluster_get
             (getRegisteredClusterLabels regCluster clusterName) w of
        Inl err \<Rightarrow> (managedCluster, Some (WithStack err))
      | Inr items \<Rightarrow>
          if length items = 1 then (items ! 0, None)
          else if rc_deletionTimestamp regCluster \<noteq> None then (managedCluster, None)
          else (managedCluster, Some (Other ''correct managedcluster not found'')))"

definition getManagedCluster_part_001 ::
  "env \<Rightarrow> RegisteredCluster \<Rightarrow> world \<Rightarrow> ManagedCluster \<times> error option" where
  "getManagedCluster_part_001 en regCluster w =
     (let managedCluster = empty_ManagedCluster in
      case List_ManagedClusters en List_ManagedCluster_get (correlationLabels_part_001 regCluster) w of
        Inl err \<Rightarrow> (managedCluster, Some (WithStack err))
      | Inr items \<Rightarrow>
          if length items = 1 then (items ! 0, None)
          else if rc_deletionTimestamp regCluster \<noteq> None then (managedCluster, None)
          else (managedCluster, Some (Other ''correct managedcluster not found'')))"

subsection \<open>The compute client: RegisteredClusters\<close>

definition sameKey :: "RegisteredCluster \<Rightarrow> RegisteredCluster \<Rightarrow> bool" where
  "sameKey a b =
     (rc_clusterName a = rc_clusterName b \<and> rc_namespace a = rc_namespace b \<and> rc_name a = rc_name b)"

definition Get_RegisteredCluster_call :: "env \<Rightarrow> Request \<Rightarrow> world \<Rightarrow> error + RegisteredCluster" where
  "Get_RegisteredCluster_call en req w =
     (case fault en Get_RegisteredCluster of
        Some e \<Rightarrow> Inl e
      | None \<Rightarrow>
          (case filter (\<lambda>r. rc_clusterName r = req_clusterName req \<and>
                             rc_namespace r = req_namespace req \<and> rc_name r = req_name req)
                  (w_registeredClusters w) of
             [] \<Rightarrow> Inl NotFound
           | r # _ \<Rightarrow> Inr r))"

text \<open>Update writes the whole object. The server removes an object that is marked for deletion
  once it is stored without a finalizer.\<close>

definition Update_call :: "env \<Rightarrow> call \<Rightarrow> RegisteredCluster \<Rightarrow> world \<Rightarrow> error option \<times> world" where
  "Update_call en c regCluster w =
     (case fault en c of
        Some e \<Rightarrow> (Some e, w)
      | None \<Rightarrow>
          if list_ex (sameKey regCluster) (w_registeredClusters w) then
            (None, emit (Updated_RegisteredCluster (rc_finalizers regCluster))
               (w\<lparr>w_registeredClusters :=
                    (if rc_deletionTimestamp regCluster \<noteq> None \<and> rc_finalizers regCluster = []
                     then filter (\<lambda>r. \<not> sameKey regCluster r) (w_registeredClusters w)
                     else map (\<lambda>r. if sameKey regCluster r then regCluster else r)
                            (w_registeredClusters w))\<rparr>))
          else (Some NotFound, w))"

text \<open>\<^verbatim>\<open>Status().Patch\<close> with a merge patch taken from a copy made just before the status was
  changed: the server writes the changed status fields. Within one reconcile the stored status
  is the one the copy had, so the stored status becomes the status of the object.\<close>

definition Patch_Status_call :: "env \<Rightarrow> call \<Rightarrow> RegisteredCluster \<Rightarrow> world \<Rightarrow> error option \<times> world" where
  "Patch_Status_call en c regCluster w =
     (case fault en c of
        Some e \<Rightarrow> (Some e, w)
      | None \<Rightarrow>
          if list_ex (sameKey regCluster) (w_registeredClusters w) then
            (None, emit (Patched_Status (rc_status regCluster))
               (w\<lparr>w_registeredClusters :=
                    map (\<lambda>r. if sameKey regCluster r then r\<lparr>rc_status := rc_status regCluster\<rparr> else r)
                      (w_registeredClusters w)\<rparr>))
          else (Some NotFound, w))"

text \<open>\<^verbatim>\<open>controllerutil.AddFinalizer\<close> and \<^verbatim>\<open>controllerutil.RemoveFinalizer\<close>.\<close>

definition AddFinalizer :: "string list \<Rightarrow> string \<Rightarrow> string list" where
  "AddFinalizer fs f = (if f \<in> set fs then fs else fs @ [f])"

definition RemoveFinalizer :: "string list \<Rightarrow> string \<Rightarrow> string list" where
  "RemoveFinalizer fs f = filter (\<lambda>x. x \<noteq> f) fs"

subsection \<open>Conditions (package helpers, not among the sources)\<close>

text \<open>Modelled from the spec: \<^verbatim>\<open>helpers.MergeStatusConditions\<close> is not among the sources. The spec
  says of the condition list that it is "merged/deduplicated by type, not simply replaced, so
  conditions not reported by the downstream object are preserved": each reported condition
  takes the place of the condition of its type, or is added when there is none.\<close>

fun setStatusCondition :: "Condition list \<Rightarrow> Condition \<Rightarrow> Condition list" where
  "setStatusCondition [] c = [c]"
| "setStatusCondition (x # xs) c =
     (if cond_type x = cond_type c then c # xs else x # setStatusCondition xs c)"

definition MergeStatusConditions :: "Condition list option \<Rightarrow> Condition list \<Rightarrow> Condition list option" where
  "MergeStatusConditions conditions newConditions =
     Some (foldl setStatusCondition (case conditions of None \<Rightarrow> [] | Some cs \<Rightarrow> cs) newConditions)"

text \<open>Modelled from the spec: \<^verbatim>\<open>helpers.GetConditionStatus\<close> is not among the sources. It returns
  the status of the condition of the given type and whether there is one; \<open>None\<close> is "there is
  none".\<close>

fun GetConditionStatus :: "Condition list option \<Rightarrow> string \<Rightarrow> ConditionStatus option" where
  "GetConditionStatus None t = None"
| "GetConditionStatus (Some []) t = None"
| "GetConditionStatus (Some (c # cs)) t =
     (if cond_type c = t then Some (cond_status c) else GetConditionStatus (Some cs) t)"

subsection \<open>updateRegisteredClusterStatus\<close>

definition updateRegisteredClusterStatus ::
  "env \<Rightarrow> RegisteredCluster \<Rightarrow> ManagedCluster \<Rightarrow> world \<Rightarrow> (RegisteredCluster \<times> error option) \<times> world" where
  "updateRegisteredClusterStatus en regCluster managedCluster w =
     (let st0 = rc_status regCluster;
          mst = mc_status managedCluster;
          st1 = (case mcs_conditions mst of
                   None \<Rightarrow> st0
                 | Some cs \<Rightarrow> st0\<lparr>rcs_conditions := MergeStatusConditions (rcs_conditions st0) cs\<rparr>);
          st2 = (if mcs_allocatable mst \<noteq> None then st1\<lparr>rcs_allocatable := mcs_allocatable mst\<rparr>
                 else st1);
          st3 = (if mcs_capacity mst \<noteq> None then st2\<lparr>rcs_capacity := mcs_capacity mst\<rparr> else st2);
          st4 = (if mcs_clusterClaims mst \<noteq> None then st3\<lparr>rcs_clusterClaims := mcs_clusterClaims mst\<rparr>
                 else st3);
          st5 = (if mcs_version mst \<noteq> \<lparr>ver_kubernetes = []\<rparr> then st4\<lparr>rcs_version := mcs_version mst\<rparr>
                 else st4);
          st6 = (case mc_clientConfigs managedCluster of
                   [] \<Rightarrow> st5
                 | c # _ \<Rightarrow> st5\<lparr>rcs_apiURL := cc_url c\<rparr>);
          st7 = (case mc_labels managedCluster ''clusterID'' of
                   None \<Rightarrow> st6
                 | Some clusterID \<Rightarrow> st6\<lparr>rcs_clusterID := clusterID\<rparr>);
          regCluster' = regCluster\<lparr>rc_status := st7\<rparr>
      in case Patch_Status_call en Patch_Status regCluster' w of
           (Some err, w') \<Rightarrow> ((regCluster', Some (WithStack err)), w')
         | (None, w') \<Rightarrow> ((regCluster', None), w'))"

subsection \<open>The event filter of the RegisteredCluster\<close>

text \<open>\<^verbatim>\<open>equality.Semantic.DeepEqual\<close> on two statuses: field by field, a \<^verbatim>\<open>nil\<close> slice or map
  being equal to an empty one. Two condition lists are equal when they have the same length
  and, position by position, conditions that agree on all six fields, the observed generation
  and the transition time included; two resource lists when they have the same keys with the
  same quantities.\<close>

definition nilAsEmpty :: "'a list option \<Rightarrow> 'a list" where
  "nilAsEmpty xs = (case xs of None \<Rightarrow> [] | Some l \<Rightarrow> l)"

definition nilAsEmptyMap :: "('k \<rightharpoonup> 'v) option \<Rightarrow> ('k \<rightharpoonup> 'v)" where
  "nilAsEmptyMap m = (case m of None \<Rightarrow> Map.empty | Some f \<Rightarrow> f)"

definition Semantic_DeepEqual :: "RegisteredClusterStatus \<Rightarrow> RegisteredClusterStatus \<Rightarrow> bool" where
  "Semantic_DeepEqual a b =
     (nilAsEmpty (rcs_conditions a) = nilAsEmpty (rcs_conditions b) \<and>
      nilAsEmptyMap (rcs_allocatable a) = nilAsEmptyMap (rcs_allocatable b) \<and>
      nilAsEmptyMap (rcs_capacity a) = nilAsEmptyMap (rcs_capacity b) \<and>
      nilAsEmpty (rcs_clusterClaims a) = nilAsEmpty (rcs_clusterClaims b) \<and>
      rcs_version a = rcs_version b \<and>
      rcs_apiURL a = rcs_apiURL b \<and>
      rcs_clusterID a = rcs_clusterID b \<and>
      rcs_importCommandRef a = rcs_importCommandRef b)"

text \<open>The objects a watch delivers, and the four events of controller-runtime. An update
  carries the old object and the new one.\<close>

datatype object =
    RegisteredCluster_object RegisteredCluster
  | ManagedCluster_object ManagedCluster
  | ManifestWork_object ManifestWork

datatype watch_event =
    CreateEvent object
  | UpdateEvent object object
  | DeleteEvent object
  | GenericEvent object

text \<open>registeredClusterPredicate sets GenericFunc, CreateFunc and UpdateFunc of
  \<^verbatim>\<open>predicate.Funcs\<close>; a function that is not set accepts, so deletions are accepted.\<close>

fun registeredClusterPredicate :: "watch_event \<Rightarrow> bool" where
  "registeredClusterPredicate (GenericEvent _) = False"
| "registeredClusterPredicate (CreateEvent _) = True"
| "registeredClusterPredicate (UpdateEvent (RegisteredCluster_object old) (RegisteredCluster_object new)) =
     (if Semantic_DeepEqual (rc_status old) (rc_status new) then True else False)"
| "registeredClusterPredicate (UpdateEvent _ _) = True"
| "registeredClusterPredicate (DeleteEvent _) = True"

subsection \<open>The hub client: ManifestWorks, ManagedClusters by name, grants, secrets\<close>

text \<open>A Get under a namespace and name that no object has is answered NotFound, the empty name
  included: the last reconcile of a teardown relies on it, when getManagedCluster has returned
  the empty ManagedCluster. Delete removes the object and records the request; a deletion that
  the server has not finished is a world in which the object is still there.\<close>

definition Get_ManifestWork_call ::
  "env \<Rightarrow> call \<Rightarrow> string \<Rightarrow> string \<Rightarrow> world \<Rightarrow> error + ManifestWork" where
  "Get_ManifestWork_call en c ns name w =
     (case fault en c of
        Some e \<Rightarrow> Inl e
      | None \<Rightarrow>
          (case filter (\<lambda>x. mw_namespace x = ns \<and> mw_name x = name) (w_manifestWorks w) of
             [] \<Rightarrow> Inl NotFound
           | x # _ \<Rightarrow> Inr x))"

definition Delete_ManifestWork_call :: "env \<Rightarrow> ManifestWork \<Rightarrow> world \<Rightarrow> error option \<times> world" where
  "Delete_ManifestWork_call en work w =
     (case fault en Delete_ManifestWork of
        Some e \<Rightarrow> (Some e, w)
      | None \<Rightarrow>
          (None, emit (Deleted_ManifestWork (mw_namespace work) (mw_name work))
             (w\<lparr>w_manifestWorks :=
                  filter (\<lambda>x. \<not> (mw_namespace x = mw_namespace work \<and> mw_name x = mw_name work))
                    (w_manifestWorks w)\<rparr>)))"

definition Get_ManagedCluster_call :: "env \<Rightarrow> call \<Rightarrow> string \<Rightarrow> world \<Rightarrow> error + ManagedCluster" where
  "Get_ManagedCluster_call en c name w =
     (case fault en c of
        Some e \<Rightarrow> Inl e
      | None \<Rightarrow>
          (case filter (\<lambda>x. mc_name x = name) (w_managedClusters w) of
             [] \<Rightarrow> Inl NotFound
           | x # _ \<Rightarrow> Inr x))"

definition Delete_ManagedCluster_call :: "env \<Rightarrow> ManagedCluster \<Rightarrow> world \<Rightarrow> error option \<times> world" where
  "Delete_ManagedCluster_call en cluster w =
     (case fault en Delete_ManagedCluster of
        Some e \<Rightarrow> (Some e, w)
      | None \<Rightarrow>
          (None, emit (Deleted_ManagedCluster (mc_name cluster))
             (w\<lparr>w_managedClusters :=
                  filter (\<lambda>x. mc_name x \<noteq> mc_name cluster) (w_managedClusters w)\<rparr>)))"

text \<open>ManagedServiceAccounts and ManagedClusterAddOns are known by namespace and name only.\<close>

definition Get_ManagedServiceAccount_call :: "env \<Rightarrow> string \<Rightarrow> string \<Rightarrow> world \<Rightarrow> error + (string \<times> string)" where
  "Get_ManagedServiceAccount_call en ns name w =
     (case fault en Get_ManagedServiceAccount of
        Some e \<Rightarrow> Inl e
      | None \<Rightarrow> if (ns, name) \<in> set (w_managedServiceAccounts w) then Inr (ns, name) else Inl NotFound)"

definition Delete_ManagedServiceAccount_call :: "env \<Rightarrow> string \<times> string \<Rightarrow> world \<Rightarrow> error option \<times> world" where
  "Delete_ManagedServiceAccount_call en managed w =
     (case fault en Delete_ManagedServiceAccount of
        Some e \<Rightarrow> (Some e, w)
      | None \<Rightarrow>
          (None, emit (Deleted_ManagedServiceAccount (fst managed) (snd managed))
             (w\<lparr>w_managedServiceAccounts := removeAll managed (w_managedServiceAccounts w)\<rparr>)))"

definition Get_ManagedClusterAddOn_call :: "env \<Rightarrow> string \<Rightarrow> string \<Rightarrow> world \<Rightarrow> error + (string \<times> string)" where
  "Get_ManagedClusterAddOn_call en ns name w =
     (case fault en Get_ManagedClusterAddOn of
        Some e \<Rightarrow> Inl e
      | None \<Rightarrow> if (ns, name) \<in> set (w_managedClusterAddOns w) then Inr (ns, name) else Inl NotFound)"

definition Delete_ManagedClusterAddOn_call :: "env \<Rightarrow> string \<times> string \<Rightarrow> world \<Rightarrow> error option \<times> world" where
  "Delete_ManagedClusterAddOn_call en addon w =
     (case fault en Delete_ManagedClusterAddOn of
        Some e \<Rightarrow> (Some e, w)
      | None \<Rightarrow>
          (None, emit (Deleted_ManagedClusterAddOn (fst addon) (snd addon))
             (w\<lparr>w_managedClusterAddOns := removeAll addon (w_managedClusterAddOns w)\<rparr>)))"

definition Get_Secret_call :: "env \<Rightarrow> call \<Rightarrow> Secret list \<Rightarrow> string \<Rightarrow> string \<Rightarrow> error + Secret" where
  "Get_Secret_call en c secrets scope name =
     (case fault en c of
        Some e \<Rightarrow> Inl e
      | None \<Rightarrow>
          (case filter (\<lambda>x. sec_scope x = scope \<and> sec_name x = name) secrets of
             [] \<Rightarrow> Inl NotFound
           | x # _ \<Rightarrow> Inr x))"

text \<open>The applier renders templates that are not among the sources. Applying to the compute
  workspace is recorded with the files and the values.\<close>

definition Apply_call ::
  "env \<Rightarrow> call \<Rightarrow> string list \<Rightarrow> (string \<times> string) list \<Rightarrow> world \<Rightarrow> error option \<times> world" where
  "Apply_call en c files vals w =
     (case fault en c of
        Some e \<Rightarrow> (Some e, w)
      | None \<Rightarrow> (None, emit (Applied files vals) w))"

text \<open>Modelled from the spec: the template \<^verbatim>\<open>kcp_syncer_manifestwork.yaml\<close> is not among the
  sources. The spec describes the Syncer Deployment Descriptor as a manifest work on the hub
  that "encodes the syncer image, target workspace URL, token, and correlation labels";
  syncKcpSyncer reads it back under the name \<^verbatim>\<open>KcpSyncerName\<close> in the namespace of the
  ManagedCluster. Applying creates it there or updates it, keeping its reported conditions.\<close>

definition Apply_SyncerManifestWork_call ::
  "env \<Rightarrow> string \<Rightarrow> string \<Rightarrow> (string \<rightharpoonup> string) \<Rightarrow> (string \<times> string) list \<Rightarrow> world
     \<Rightarrow> error option \<times> world" where
  "Apply_SyncerManifestWork_call en ns name lbls vals w =
     (case fault en Apply_SyncerManifestWork of
        Some e \<Rightarrow> (Some e, w)
      | None \<Rightarrow>
          (let here = (\<lambda>x. mw_namespace x = ns \<and> mw_name x = name);
               work = \<lparr>mw_namespace = ns, mw_name = name, mw_labels = lbls,
                       mw_conditions = (case filter here (w_manifestWorks w) of
                                          [] \<Rightarrow> None | x # _ \<Rightarrow> mw_conditions x),
                       mw_values = vals\<rparr>
           in (None, emit (Applied [''cluster-registration/kcp_syncer_manifestwork.yaml''] vals)
                 (w\<lparr>w_manifestWorks := filter (\<lambda>x. \<not> here x) (w_manifestWorks w) @ [work]\<rparr>))))"

subsection \<open>syncKcpSyncer\<close>

definition getSyncerImage :: "env \<Rightarrow> string" where
  "getSyncerImage en =
     (let syncerImage = syncerImageEnv en in
      if length syncerImage > 0 then syncerImage else defaultSyncerImage)"

definition getSyncerImage_part_001 :: "env \<Rightarrow> string" where
  "getSyncerImage_part_001 en =
     (let syncerImage = syncerImageEnv en in
      if length syncerImage > 0 then syncerImage else defaultSyncerImage_part_001)"

text \<open>\<^verbatim>\<open>strings.ReplaceAll(s, ":", "_")\<close>.\<close>

definition colonsToUnderscores :: "string \<Rightarrow> string" where
  "colonsToUnderscores s = map (\<lambda>c. if c = CHR '':'' then CHR ''_'' else c) s"

definition syncKcpSyncer ::
  "env \<Rightarrow> RegisteredCluster \<Rightarrow> ManagedCluster \<Rightarrow> string \<Rightarrow> world \<Rightarrow> error option \<times> world" where
  "syncKcpSyncer en regCluster managedCluster token w =
     (if GetConditionStatus (rcs_conditions (rc_status regCluster)) ManagedClusterConditionJoined
           = Some ConditionTrue
      then
        (let syncerName = GetSyncerName (rc_name regCluster) in
         case fault en Parse_ComputeHost of
           Some err \<Rightarrow> (Some err, w)
         | None \<Rightarrow>
             (let vals =
                [(''KcpSyncerName'', syncerName),
                 (''KcpToken'', token),
                 (''KcpServer'', computeScheme en @ ''://'' @ computeHost en),
                 (''SyncTargetName'', rc_name regCluster),
                 (''ManagedClusterName'', mc_name managedCluster),
                 (''RegisteredClusterNameLabel'', RegisteredClusterNamelabel),
                 (''RegisteredClusterNamespaceLabel'', RegisteredClusterNamespacelabel),
                 (''RegisteredClusterName'', rc_name regCluster),
                 (''RegisteredClusterNamespace'', rc_namespace regCluster),
                 (''ClusterNameAnnotation'', ClusterNameAnnotation),
                 (''RegisteredClusterClusterName'',
                    (case mc_annotations managedCluster ClusterNameAnnotation of
                       None \<Rightarrow> [] | Some a \<Rightarrow> a)),
                 (''LogicalCluster'', rc_location regCluster),
                 (''LogicalClusterLabel'', colonsToUnderscores (rc_location regCluster)),
                 (''Image'', getSyncerImage en)]
              in case Apply_SyncerManifestWork_call en (mc_name managedCluster) syncerName
                        [RegisteredClusterNamelabel \<mapsto> rc_name regCluster,
                         RegisteredClusterNamespacelabel \<mapsto> rc_namespace regCluster] vals w of
                   (Some err, w') \<Rightarrow> (Some (WithStack err), w')
                 | (None, w') \<Rightarrow>
                     (case Get_ManifestWork_call en Get_ManifestWork_sync
                             (mc_name managedCluster) syncerName w' of
                        Inl err \<Rightarrow> (Some (WithStack err), w')
                      | Inr work \<Rightarrow>
                          if GetConditionStatus (mw_conditions work) ManifestApplied = Some ConditionTrue
                          then (None, w') else (None, w'))))
      else (None, w))"

definition syncKcpSyncer_part_001 ::
  "env \<Rightarrow> RegisteredCluster \<Rightarrow> ManagedCluster \<Rightarrow> string \<Rightarrow> world \<Rightarrow> error option \<times> world" where
  "syncKcpSyncer_part_001 en regCluster managedCluster token w =
     (if GetConditionStatus (rcs_conditions (rc_status regCluster)) ManagedClusterConditionJoined
           = Some ConditionTrue
      then
        (let syncerName = GetSyncerName (rc_name regCluster) in
         case fault en Parse_ComputeHost of
           Some err \<Rightarrow> (Some err, w)
         | None \<Rightarrow>
             (let vals =
                [(''KcpSyncerName'', syncerName),
                 (''KcpToken'', token),
                 (''KcpServer'', computeScheme en @ ''://'' @ computeHost en),
                 (''SyncTargetName'', rc_name regCluster),
                 (''ManagedClusterName'', mc_name managedCluster),
                 (''RegisteredClusterNameLabel'', RegisteredClusterNamelabel),
                 (''RegisteredClusterNamespaceLabel'', RegisteredClusterNamespacelabel),
                 (''RegisteredClusterName'', rc_name regCluster),
                 (''RegisteredClusterNamespace'', rc_namespace regCluster),
                 (''LogicalCluster'', rc_location regCluster),
                 (''LogicalClusterLabel'', colonsToUnderscores (rc_location regCluster)),
                 (''Image'', getSyncerImage_part_001 en)]
              in case Apply_SyncerManifestWork_call en (mc_name managedCluster) syncerName
                        [RegisteredClusterNamelabel \<mapsto> rc_name regCluster,
                         RegisteredClusterNamespacelabel \<mapsto> rc_namespace regCluster] vals w of
                   (Some err, w') \<Rightarrow> (Some (WithStack err), w')
                 | (None, w') \<Rightarrow>
                     (case Get_ManifestWork_call en Get_ManifestWork_sync
                             (mc_name managedCluster) syncerName w' of
                        Inl err \<Rightarrow> (Some (WithStack err), w')
                      | Inr work \<Rightarrow>
                          if GetConditionStatus (mw_conditions work) ManifestApplied = Some ConditionTrue
                          then (None, w') else (None, w'))))
      else (None, w))"

subsection \<open>processRegclusterDeletion\<close>

definition processRegclusterDeletion ::
  "env \<Rightarrow> RegisteredCluster \<Rightarrow> ManagedCluster \<Rightarrow> world \<Rightarrow> (Result \<times> error option) \<times> world" where
  "processRegclusterDeletion en regCluster managedCluster w =
     (let manifestworkName = GetSyncerName (rc_name regCluster) in
      case Get_ManifestWork_call en Get_ManifestWork_deletion
             (mc_name managedCluster) manifestworkName w of
        Inr manifestwork \<Rightarrow>
          (case Delete_ManifestWork_call en manifestwork w of
             (Some err, w') \<Rightarrow> ((empty_Result, Some (WithStack err)), w')
           | (None, w') \<Rightarrow> ((\<lparr>Requeue = True, RequeueAfter = 1 * Second\<rparr>, None), w'))
      | Inl err \<Rightarrow>
          if \<not> IsNotFound err then ((empty_Result, Some (WithStack err)), w)
          else
            (case Get_ManagedCluster_call en Get_ManagedCluster_deletion (mc_name managedCluster) w of
               Inr cluster \<Rightarrow>
                 (case Delete_ManagedCluster_call en cluster w of
                    (Some err, w') \<Rightarrow> ((empty_Result, Some (WithStack err)), w')
                  | (None, w') \<Rightarrow> ((\<lparr>Requeue = True, RequeueAfter = 5 * Second\<rparr>, None), w'))
             | Inl err \<Rightarrow>
                 if \<not> IsNotFound err then ((empty_Result, Some (WithStack err)), w)
                 else ((empty_Result, None), w)))"

definition processRegclusterDeletion_part_001 ::
  "env \<Rightarrow> RegisteredCluster \<Rightarrow> ManagedCluster \<Rightarrow> world \<Rightarrow> (Result \<times> error option) \<times> world" where
  "processRegclusterDeletion_part_001 en regCluster managedCluster w =
     (case Get_ManifestWork_call en Get_ManifestWork_deletion
             (mc_name managedCluster) ManagedServiceAccountName w of
        Inr manifestwork \<Rightarrow>
          (case Delete_ManifestWork_call en manifestwork w of
             (Some err, w') \<Rightarrow> ((empty_Result, Some (WithStack err)), w')
           | (None, w') \<Rightarrow> ((\<lparr>Requeue = True, RequeueAfter = 1 * Second\<rparr>, None), w'))
      | Inl err \<Rightarrow>
          if \<not> IsNotFound err then ((empty_Result, Some (WithStack err)), w)
          else
       (case Get_ManagedServiceAccount_call en (mc_name managedCluster) ManagedServiceAccountName w of
          Inr managed \<Rightarrow>
            (case Delete_ManagedServiceAccount_call en managed w of
               (Some err, w') \<Rightarrow> ((empty_Result, Some (WithStack err)), w')
             | (None, w') \<Rightarrow> ((\<lparr>Requeue = True, RequeueAfter = 1 * Second\<rparr>, None), w'))
        | Inl err \<Rightarrow>
            if \<not> IsNotFound err then ((empty_Result, Some (WithStack err)), w)
            else
         (case Get_ManagedClusterAddOn_call en (mc_name managedCluster) ManagedClusterAddOnName w of
            Inr addon \<Rightarrow>
              (case Delete_ManagedClusterAddOn_call en addon w of
                 (Some err, w') \<Rightarrow> ((empty_Result, Some (WithStack err)), w')
               | (None, w') \<Rightarrow> ((\<lparr>Requeue = True, RequeueAfter = 1 * Second\<rparr>, None), w'))
          | Inl err \<Rightarrow>
              if \<not> IsNotFound err then ((empty_Result, Some (WithStack err)), w)
              else
           (case Get_ManagedCluster_call en Get_ManagedCluster_deletion (mc_name managedCluster) w of
              Inr cluster \<Rightarrow>
                (case Delete_ManagedCluster_call en cluster w of
                   (Some err, w') \<Rightarrow> ((empty_Result, Some (WithStack err)), w')
                 | (None, w') \<Rightarrow> ((\<lparr>Requeue = True, RequeueAfter = 5 * Second\<rparr>, None), w'))
            | Inl err \<Rightarrow>
                if \<not> IsNotFound err then ((empty_Result, Some (WithStack err)), w)
                else ((empty_Result, None), w)))))"

subsection \<open>updateImportCommand and syncSyncTarget\<close>

text \<open>\<^verbatim>\<open>strings.TrimSpace\<close>, and \<^verbatim>\<open>yaml.Marshal\<close> of the payload of a secret: the payload stands
  for its own base64 text, which the YAML encoder ends with a newline; a key that is missing is
  a \<^verbatim>\<open>nil\<close> byte slice.\<close>

definition isSpace :: "char \<Rightarrow> bool" where
  "isSpace c = (c \<in> set [CHR '' '', CHR 0x09, CHR 0x0A, CHR 0x0B, CHR 0x0C, CHR 0x0D])"

definition TrimSpace :: "string \<Rightarrow> string" where
  "TrimSpace s = rev (dropWhile isSpace (rev (dropWhile isSpace s)))"

definition yaml_Marshal :: "string option \<Rightarrow> string" where
  "yaml_Marshal payload = (case payload of None \<Rightarrow> ''null'' | Some b \<Rightarrow> b) @ [CHR 0x0A]"

definition updateImportCommand ::
  "env \<Rightarrow> RegisteredCluster \<Rightarrow> ManagedCluster \<Rightarrow> world \<Rightarrow> (RegisteredCluster \<times> error option) \<times> world" where
  "updateImportCommand en regCluster managedCluster w =
     (case Get_Secret_call en Get_ImportSecret (w_hubSecrets w)
             (mc_name managedCluster) (mc_name managedCluster @ ''-import'') of
        Inl err \<Rightarrow>
          if IsNotFound err then ((regCluster, Some (WithStack err)), w)
          else ((regCluster, Some (WithStack err)), w)
      | Inr importSecret \<Rightarrow>
          (case fault en Marshal_crdsv1 of
             Some err \<Rightarrow> ((regCluster, Some (WithStack err)), w)
           | None \<Rightarrow>
          (case fault en Marshal_import of
             Some err \<Rightarrow> ((regCluster, Some (WithStack err)), w)
           | None \<Rightarrow>
          (let crdsv1Yaml = yaml_Marshal (sec_data importSecret ''crdsv1.yaml'');
               importYaml = yaml_Marshal (sec_data importSecret ''import.yaml'');
               quote = [CHR 0x22];
               importCommand =
                 ''echo '' @ quote @ TrimSpace crdsv1Yaml @ quote @
                 '' | base64 --decode | kubectl apply -f - && sleep 2 && echo '' @ quote @
                 TrimSpace importYaml @ quote @ '' | base64 --decode | kubectl apply -f -'';
               vals = [(''Name'', rc_name regCluster),
                       (''Namespace'', rc_namespace regCluster),
                       (''ImportCommand'', importCommand),
                       (''ClusterName'', rc_clusterName regCluster)]
           in case Apply_call en Apply_ImportSecret [''cluster-registration/import_secret.yaml'']
                     vals w of
                (Some err, w1) \<Rightarrow> ((regCluster, Some (WithStack err)), w1)
              | (None, w1) \<Rightarrow>
                  (let regCluster' = regCluster
                         \<lparr>rc_status := (rc_status regCluster)
                            \<lparr>rcs_importCommandRef := rc_name regCluster @ ''-import''\<rparr>\<rparr>
                   in case Patch_Status_call en Patch_ImportCommandRef regCluster' w1 of
                        (Some err, w2) \<Rightarrow> ((regCluster', Some (WithStack err)), w2)
                      | (None, w2) \<Rightarrow> ((regCluster', None), w2))))))"

definition syncSyncTarget :: "RegisteredCluster \<Rightarrow> ManagedCluster \<Rightarrow> error option" where
  "syncSyncTarget regCluster managedCluster = None"

subsection \<open>syncServiceAccount and getKcpSyncerSAToken\<close>

definition Get_ServiceAccount_call :: "env \<Rightarrow> string \<Rightarrow> string \<Rightarrow> world \<Rightarrow> error + ServiceAccount" where
  "Get_ServiceAccount_call en location name w =
     (case fault en Get_ServiceAccount of
        Some e \<Rightarrow> Inl e
      | None \<Rightarrow>
          (case filter (\<lambda>x. sa_scope x = location \<and> sa_name x = name) (w_serviceAccounts w) of
             [] \<Rightarrow> Inl NotFound
           | x # _ \<Rightarrow> Inr x))"

definition Create_ServiceAccount_call ::
  "env \<Rightarrow> ServiceAccount \<Rightarrow> world \<Rightarrow> (error + ServiceAccount) \<times> world" where
  "Create_ServiceAccount_call en sa w =
     (case fault en Create_ServiceAccount of
        Some e \<Rightarrow> (Inl e, w)
      | None \<Rightarrow>
          if list_ex (\<lambda>x. sa_scope x = sa_scope sa \<and> sa_name x = sa_name sa) (w_serviceAccounts w)
          then (Inl (Other ''already exists''), w)
          else (Inr sa, emit (Created_ServiceAccount (sa_scope sa) (sa_name sa))
                          (w\<lparr>w_serviceAccounts := w_serviceAccounts w @ [sa]\<rparr>)))"

definition HasPrefix :: "string \<Rightarrow> string \<Rightarrow> bool" where
  "HasPrefix s pre = (take (length pre) s = pre)"

definition SecretTypeServiceAccountToken :: string where
  "SecretTypeServiceAccountToken = ''kubernetes.io/service-account-token''"

text \<open>The loop of getKcpSyncerSAToken over \<^verbatim>\<open>sa.Secrets\<close>; every \<^verbatim>\<open>continue\<close> goes on with the
  rest of the list.\<close>

fun getKcpSyncerSAToken_loop ::
  "env \<Rightarrow> string \<Rightarrow> string \<Rightarrow> world \<Rightarrow> string list \<Rightarrow> string \<times> error option" where
  "getKcpSyncerSAToken_loop en location saName w [] =
     ([], Some (Other (''failed to get the token of workspace sa '' @ saName @
                       '' in namespace default'')))"
| "getKcpSyncerSAToken_loop en location saName w (secretRef # rest) =
     (if \<not> HasPrefix secretRef saName then getKcpSyncerSAToken_loop en location saName w rest
      else
        (case Get_Secret_call en (Get_TokenSecret secretRef) (w_workspaceSecrets w)
                location secretRef of
           Inl err \<Rightarrow> getKcpSyncerSAToken_loop en location saName w rest
         | Inr secret \<Rightarrow>
             if sec_type secret \<noteq> SecretTypeServiceAccountToken
             then getKcpSyncerSAToken_loop en location saName w rest
             else
               (case sec_data secret ''token'' of
                  None \<Rightarrow> getKcpSyncerSAToken_loop en location saName w rest
                | Some token \<Rightarrow>
                    if length token = 0 then getKcpSyncerSAToken_loop en location saName w rest
                    else (token, None))))"

definition getKcpSyncerSAToken ::
  "env \<Rightarrow> RegisteredCluster \<Rightarrow> ServiceAccount \<Rightarrow> world \<Rightarrow> string \<times> error option" where
  "getKcpSyncerSAToken en regCluster sa w =
     getKcpSyncerSAToken_loop en (rc_location regCluster) GetSyncerServiceAccountName w
       (sa_secrets sa)"

text \<open>In the controller file the code that applied the ClusterRole, and slept around it, is
  commented out: after the ServiceAccount is there, \<^verbatim>\<open>err\<close> is \<^verbatim>\<open>nil\<close> and the test that follows
  never fires.\<close>

definition syncServiceAccount ::
  "env \<Rightarrow> RegisteredCluster \<Rightarrow> world \<Rightarrow> (string \<times> error option) \<times> world" where
  "syncServiceAccount en regCluster w =
     (let saName = GetSyncerServiceAccountName;
          location = rc_location regCluster
      in case (case Get_ServiceAccount_call en location saName w of
                 Inr sa \<Rightarrow> (Inr sa, w)
               | Inl err \<Rightarrow>
                   if \<not> IsNotFound err then (Inl err, w)
                   else Create_ServiceAccount_call en
                          \<lparr>sa_scope = location, sa_name = saName, sa_secrets = []\<rparr> w) of
           (Inl err, w1) \<Rightarrow> (([], Some err), w1)
         | (Inr sa, w1) \<Rightarrow> (getKcpSyncerSAToken en regCluster sa w1, w1))"

text \<open>In \<^verbatim>\<open>part_001\<close> the worker sleeps ten seconds, applies the ClusterRole and its binding,
  and sleeps ten seconds again, before it looks at the error of the apply.\<close>

definition syncServiceAccount_part_001 ::
  "env \<Rightarrow> RegisteredCluster \<Rightarrow> world \<Rightarrow> (string \<times> error option) \<times> world" where
  "syncServiceAccount_part_001 en regCluster w =
     (let saName = GetSyncerServiceAccountName;
          location = rc_location regCluster
      in case (case Get_ServiceAccount_call en location saName w of
                 Inr sa \<Rightarrow> (Inr sa, w)
               | Inl err \<Rightarrow>
                   if \<not> IsNotFound err then (Inl err, w)
                   else Create_ServiceAccount_call en
                          \<lparr>sa_scope = location, sa_name = saName, sa_secrets = []\<rparr> w) of
           (Inl err, w1) \<Rightarrow> (([], Some err), w1)
         | (Inr sa, w1) \<Rightarrow>
             (let vals = [(''KcpSyncerName'', GetSyncerName (rc_name regCluster)),
                          (''SyncTargetName'', rc_name regCluster),
                          (''ServiceAccountName'', saName)];
                  w2 = emit (Slept (10 * Second)) w1
              in case Apply_call en Apply_ClusterRole
                        [''cluster-registration/kcp_syncer_clusterrole.yaml'',
                         ''cluster-registration/kcp_syncer_clusterrolebinding.yaml''] vals w2 of
                   (aerr, w3) \<Rightarrow>
                     (let w4 = emit (Slept (10 * Second)) w3
                      in case aerr of
                           Some err \<Rightarrow> (([], Some (WithStack err)), w4)
                         | None \<Rightarrow> (getKcpSyncerSAToken en regCluster sa w4, w4))))"

subsection \<open>Reconcile\<close>

text \<open>Reconcile reads the same in both files, but for the functions it calls, which are chosen
  by the file. Its body is written in three parts: the part up to the ManagedCluster, the block
  for an object that is marked for deletion, and the rest.\<close>

datatype generation = Controller_go | Part_001

definition createManagedCluster_of ::
  "generation \<Rightarrow> env \<Rightarrow> RegisteredCluster \<Rightarrow> string \<Rightarrow> world \<Rightarrow> error option \<times> world" where
  "createManagedCluster_of g en regCluster clusterName w =
     (case g of Controller_go \<Rightarrow> createManagedCluster en regCluster clusterName w
              | Part_001 \<Rightarrow> createManagedCluster_part_001 en regCluster w)"

definition getManagedCluster_of ::
  "generation \<Rightarrow> env \<Rightarrow> RegisteredCluster \<Rightarrow> string \<Rightarrow> world \<Rightarrow> ManagedCluster \<times> error option" where
  "getManagedCluster_of g en regCluster clusterName w =
     (case g of Controller_go \<Rightarrow> getManagedCluster en regCluster clusterName w
              | Part_001 \<Rightarrow> getManagedCluster_part_001 en regCluster w)"

definition processRegclusterDeletion_of ::
  "generation \<Rightarrow> env \<Rightarrow> RegisteredCluster \<Rightarrow> ManagedCluster \<Rightarrow> world
     \<Rightarrow> (Result \<times> error option) \<times> world" where
  "processRegclusterDeletion_of g en regCluster managedCluster w =
     (case g of Controller_go \<Rightarrow> processRegclusterDeletion en regCluster managedCluster w
              | Part_001 \<Rightarrow> processRegclusterDeletion_part_001 en regCluster managedCluster w)"

definition syncServiceAccount_of ::
  "generation \<Rightarrow> env \<Rightarrow> RegisteredCluster \<Rightarrow> world \<Rightarrow> (string \<times> error option) \<times> world" where
  "syncServiceAccount_of g en regCluster w =
     (case g of Controller_go \<Rightarrow> syncServiceAccount en regCluster w
              | Part_001 \<Rightarrow> syncServiceAccount_part_001 en regCluster w)"

definition syncKcpSyncer_of ::
  "generation \<Rightarrow> env \<Rightarrow> RegisteredCluster \<Rightarrow> ManagedCluster \<Rightarrow> string \<Rightarrow> world
     \<Rightarrow> error option \<times> world" where
  "syncKcpSyncer_of g en regCluster managedCluster token w =
     (case g of Controller_go \<Rightarrow> syncKcpSyncer en regCluster managedCluster token w
              | Part_001 \<Rightarrow> syncKcpSyncer_part_001 en regCluster managedCluster token w)"

text \<open>The selector each file lists ManagedClusters by.\<close>

definition correlationLabels_of :: "generation \<Rightarrow> RegisteredCluster \<Rightarrow> string \<Rightarrow> (string \<times> string) list" where
  "correlationLabels_of g regCluster clusterName =
     (case g of Controller_go \<Rightarrow> getRegisteredClusterLabels regCluster clusterName
              | Part_001 \<Rightarrow> correlationLabels_part_001 regCluster)"

text \<open>The block of Reconcile for an object that is marked for deletion
  (\<^verbatim>\<open>if regCluster.DeletionTimestamp != nil\<close>).\<close>

definition Reconcile_deletion ::
  "generation \<Rightarrow> env \<Rightarrow> RegisteredCluster \<Rightarrow> ManagedCluster \<Rightarrow> world
     \<Rightarrow> (Result \<times> error option) \<times> world" where
  "Reconcile_deletion g en regCluster managedCluster w =
     (case processRegclusterDeletion_of g en regCluster managedCluster w of
        ((r, err), w1) \<Rightarrow>
          if err \<noteq> None \<or> Requeue r then ((r, err), w1)
          else
            (let regCluster' = regCluster
                   \<lparr>rc_finalizers := RemoveFinalizer (rc_finalizers regCluster) RegisteredClusterFinalizer\<rparr>
             in case Update_call en Update_RemoveFinalizer regCluster' w1 of
                  (Some uerr, w2) \<Rightarrow> ((empty_Result, Some (WithStack uerr)), w2)
                | (None, w2) \<Rightarrow> ((empty_Result, None), w2)))"

text \<open>The rest of Reconcile, for an object that is not marked for deletion.\<close>

definition Reconcile_sync ::
  "generation \<Rightarrow> env \<Rightarrow> RegisteredCluster \<Rightarrow> ManagedCluster \<Rightarrow> world
     \<Rightarrow> (Result \<times> error option) \<times> world" where
  "Reconcile_sync g en regCluster managedCluster w =
     (case updateImportCommand en regCluster managedCluster w of
        ((regCluster1, Some err), w1) \<Rightarrow>
          if IsNotFound err then ((\<lparr>Requeue = True, RequeueAfter = 1 * Second\<rparr>, None), w1)
          else ((empty_Result, Some err), w1)
      | ((regCluster1, None), w1) \<Rightarrow>
     (case syncSyncTarget regCluster1 managedCluster of
        Some err \<Rightarrow> ((empty_Result, Some err), w1)
      | None \<Rightarrow>
     (case syncServiceAccount_of g en regCluster1 w1 of
        ((token, Some err), w2) \<Rightarrow> ((empty_Result, Some err), w2)
      | ((token, None), w2) \<Rightarrow>
     (case syncKcpSyncer_of g en regCluster1 managedCluster token w2 of
        (Some err, w3) \<Rightarrow> ((empty_Result, Some err), w3)
      | (None, w3) \<Rightarrow>
     (case updateRegisteredClusterStatus en regCluster1 managedCluster w3 of
        ((regCluster2, Some err), w4) \<Rightarrow> ((empty_Result, Some err), w4)
      | ((regCluster2, None), w4) \<Rightarrow> ((empty_Result, None), w4))))))"

text \<open>The first part of Reconcile, up to the ManagedCluster: it either returns (\<open>Inl\<close>, with
  what Reconcile returns) or goes on (\<open>Inr\<close>) with the RegisteredCluster, the ManagedCluster and
  the world.\<close>

definition Reconcile_prepare ::
  "generation \<Rightarrow> env \<Rightarrow> Request \<Rightarrow> world
     \<Rightarrow> ((Result \<times> error option) \<times> world) + (RegisteredCluster \<times> ManagedCluster \<times> world)" where
  "Reconcile_prepare g en req w =
     (case Get_RegisteredCluster_call en req w of
        Inl err \<Rightarrow>
          if IsNotFound err then Inl ((empty_Result, None), w)
          else Inl ((empty_Result, Some (WithStack err)), w)
      | Inr regCluster0 \<Rightarrow>
     (case fault en GetHubCluster of
        Some err \<Rightarrow> Inl ((empty_Result, Some err), w)
      | None \<Rightarrow>
     (let regCluster = regCluster0
            \<lparr>rc_finalizers := AddFinalizer (rc_finalizers regCluster0) RegisteredClusterFinalizer\<rparr>
      in case Update_call en Update_AddFinalizer regCluster w of
           (Some err, w1) \<Rightarrow> Inl ((empty_Result, Some (WithStack err)), w1)
         | (None, w1) \<Rightarrow>
     (case (if rc_deletionTimestamp regCluster = None
            then createManagedCluster_of g en regCluster (req_clusterName req) w1
            else (None, w1)) of
        (Some err, w2) \<Rightarrow> Inl ((empty_Result, Some err), w2)
      | (None, w2) \<Rightarrow>
     (case getManagedCluster_of g en regCluster (req_clusterName req) w2 of
        (managedCluster, gerr) \<Rightarrow>
          if (case gerr of None \<Rightarrow> False | Some err \<Rightarrow> \<not> IsNotFound err)
          then Inl ((empty_Result, gerr), w2)
          else Inr (regCluster, managedCluster, w2))))))"

definition Reconcile ::
  "generation \<Rightarrow> env \<Rightarrow> Request \<Rightarrow> world \<Rightarrow> (Result \<times> error option) \<times> world" where
  "Reconcile g en req w =
     (case Reconcile_prepare g en req w of
        Inl returned \<Rightarrow> returned
      | Inr (regCluster, managedCluster, w2) \<Rightarrow>
          if rc_deletionTimestamp regCluster \<noteq> None
          then Reconcile_deletion g en regCluster managedCluster w2
          else Reconcile_sync g en regCluster managedCluster w2)"

subsection \<open>Concrete objects\<close>

text \<open>An environment that injects no error, a RegisteredCluster \<^verbatim>\<open>team-a/cluster-1\<close> of the
  workspace \<^verbatim>\<open>ws\<close>, a ManagedCluster that carries its correlation labels, and a world that
  holds the RegisteredCluster and the given hub objects.\<close>

definition example_env :: env where
  "example_env = \<lparr>fault = (\<lambda>c. None), generatedSuffix = ''x7k2p'', syncerImageEnv = [],
                   computeScheme = ''https'', computeHost = ''kcp.example:6443''\<rparr>"

definition example_status :: RegisteredClusterStatus where
  "example_status = \<lparr>rcs_conditions = None, rcs_allocatable = None, rcs_capacity = None,
     rcs_clusterClaims = None, rcs_version = \<lparr>ver_kubernetes = []\<rparr>, rcs_apiURL = [],
     rcs_clusterID = [], rcs_importCommandRef = []\<rparr>"

definition example_rc :: RegisteredCluster where
  "example_rc = \<lparr>rc_clusterName = ''ws'', rc_namespace = ''team-a'', rc_name = ''cluster-1'',
     rc_uid = ''u1'', rc_deletionTimestamp = None, rc_finalizers = [RegisteredClusterFinalizer],
     rc_location = ''root:team-a'', rc_status = example_status\<rparr>"

definition example_req :: Request where
  "example_req = \<lparr>req_clusterName = ''ws'', req_namespace = ''team-a'', req_name = ''cluster-1''\<rparr>"

definition example_mc :: "string \<Rightarrow> ManagedCluster" where
  "example_mc name = empty_ManagedCluster
     \<lparr>mc_name := name, mc_generateName := ''registered-cluster-'',
      mc_labels := map_of (getRegisteredClusterLabels example_rc ''ws''),
      mc_hubAcceptsClient := True\<rparr>"

definition example_world :: "RegisteredCluster \<Rightarrow> ManagedCluster list \<Rightarrow> ManifestWork list \<Rightarrow> world" where
  "example_world rc mcs works = \<lparr>w_registeredClusters = [rc], w_managedClusters = mcs,
     w_manifestWorks = works, w_managedServiceAccounts = [], w_managedClusterAddOns = [],
     w_hubSecrets = [], w_serviceAccounts = [], w_workspaceSecrets = [], w_trace = []\<rparr>"

definition joined :: Condition where
  "joined = \<lparr>cond_type = ManagedClusterConditionJoined, cond_status = ConditionTrue,
              cond_observedGeneration = 1, cond_lastTransitionTime = 1700000000,
              cond_reason = ''ManagedClusterJoined'', cond_message = []\<rparr>"

text \<open>The RegisteredCluster with the Joined condition in its status, and a ManagedCluster that
  reports it.\<close>

definition joined_rc :: RegisteredCluster where
  "joined_rc = example_rc\<lparr>rc_status := example_status\<lparr>rcs_conditions := Some [joined]\<rparr>\<rparr>"

definition joined_mc :: ManagedCluster where
  "joined_mc = (example_mc ''mc1'')
      \<lparr>mc_status := (mc_status (example_mc ''mc1''))\<lparr>mcs_conditions := Some [joined]\<rparr>\<rparr>"


text \<open>Two conditions of different types.\<close>

definition condition_A :: Condition where
  "condition_A = \<lparr>cond_type = ''A'', cond_status = ConditionTrue, cond_observedGeneration = 0,
                   cond_lastTransitionTime = 0, cond_reason = [], cond_message = []\<rparr>"

definition condition_B :: Condition where
  "condition_B = \<lparr>cond_type = ''B'', cond_status = ConditionTrue, cond_observedGeneration = 0,
                   cond_lastTransitionTime = 0, cond_reason = [], cond_message = []\<rparr>"

text \<open>A world of \<^verbatim>\<open>part_001\<close> in which the ManagedCluster \<^verbatim>\<open>mc1\<close> has joined and syncKcpSyncer has
  applied the Syncer Deployment Descriptor.\<close>

definition synced_world_part_001 :: world where
  "synced_world_part_001 =
     snd (syncKcpSyncer_part_001 example_env joined_rc (example_mc ''mc1'') ''token''
            (example_world joined_rc [example_mc ''mc1''] []))"

text \<open>A world in which the import secret of the ManagedCluster \<^verbatim>\<open>mc1\<close> is there.\<close>

definition import_secret :: Secret where
  "import_secret = \<lparr>sec_scope = ''mc1'', sec_name = ''mc1-import'', sec_type = ''Opaque'',
                     sec_data = [''crdsv1.yaml'' \<mapsto> ''Y3Jkcw=='', ''import.yaml'' \<mapsto> ''aW1wb3J0'']\<rparr>"

definition importable_world :: world where
  "importable_world = (example_world example_rc [example_mc ''mc1''] [])\<lparr>w_hubSecrets := [import_secret]\<rparr>"

text \<open>The RegisteredCluster marked for deletion, and a world that holds it.\<close>

definition deleting_rc :: RegisteredCluster where
  "deleting_rc = example_rc\<lparr>rc_deletionTimestamp := Some 1\<rparr>"

definition deleting_world :: "ManagedCluster list \<Rightarrow> world" where
  "deleting_world mcs = example_world deleting_rc mcs []"

subsection \<open>Predicates of the statements\<close>

text \<open>\<open>created_one g en rc cn w w'\<close>: the world \<open>w'\<close> is \<open>w\<close> with one more ManagedCluster, which
  has the generated name and is selected by the correlation labels, while \<open>w\<close> held none that
  is.\<close>

definition created_one ::
  "generation \<Rightarrow> env \<Rightarrow> RegisteredCluster \<Rightarrow> string \<Rightarrow> world \<Rightarrow> world \<Rightarrow> bool" where
  "created_one g en rc cn w w' =
     (\<exists>m. w' = emit (Created_ManagedCluster (''registered-cluster-'' @ generatedSuffix en))
                 (w\<lparr>w_managedClusters := w_managedClusters w @ [m]\<rparr>) \<and>
          selected (correlationLabels_of g rc cn) w = [] \<and>
          matchesLabels (correlationLabels_of g rc cn) (mc_labels m) \<and>
          mc_name m = ''registered-cluster-'' @ generatedSuffix en \<and>
          \<not> list_ex (\<lambda>x. mc_name x = mc_name m) (w_managedClusters w))"

text \<open>The status that updateRegisteredClusterStatus leaves in the object it was given.\<close>

definition projected :: "RegisteredCluster \<Rightarrow> ManagedCluster \<Rightarrow> env \<Rightarrow> world \<Rightarrow> RegisteredClusterStatus" where
  "projected rc mc en w = rc_status (fst (fst (updateRegisteredClusterStatus en rc mc w)))"

text \<open>The orchestrator run once per environment of the list, on the world the run before
  left.\<close>

fun teardown :: "generation \<Rightarrow> env list \<Rightarrow> RegisteredCluster \<Rightarrow> ManagedCluster \<Rightarrow> world \<Rightarrow> world" where
  "teardown g [] rc mc w = w"
| "teardown g (en # ens) rc mc w =
     teardown g ens rc mc (snd (processRegclusterDeletion_of g en rc mc w))"

text \<open>\<open>precedes a b tr\<close>: the trace holds no \<open>b\<close> that does not come after an \<open>a\<close>.\<close>

fun precedes :: "event \<Rightarrow> event \<Rightarrow> event list \<Rightarrow> bool" where
  "precedes a b [] = True"
| "precedes a b (x # xs) = (if x = a then True else if x = b then False else precedes a b xs)"

text \<open>A Get of the orchestrator answers NotFound only for an object that is not there.\<close>

definition truthful :: "env \<Rightarrow> bool" where
  "truthful en =
     (\<forall>c \<in> {Get_ManifestWork_deletion, Get_ManagedServiceAccount, Get_ManagedClusterAddOn,
              Get_ManagedCluster_deletion}.
        case fault en c of None \<Rightarrow> True | Some e \<Rightarrow> \<not> IsNotFound e)"

definition hasManifestWork :: "string \<Rightarrow> string \<Rightarrow> world \<Rightarrow> bool" where
  "hasManifestWork ns name w = list_ex (\<lambda>x. mw_namespace x = ns \<and> mw_name x = name) (w_manifestWorks w)"

definition hasManagedCluster :: "string \<Rightarrow> world \<Rightarrow> bool" where
  "hasManagedCluster name w = list_ex (\<lambda>x. mc_name x = name) (w_managedClusters w)"


text \<open>The state of a teardown of the controller file: either the descriptor has been asked to
  go, or it is still there and the ManagedCluster has not been asked to go.\<close>

definition ordered :: "string \<Rightarrow> string \<Rightarrow> world \<Rightarrow> bool" where
  "ordered ns name w =
     (precedes (Deleted_ManifestWork ns name) (Deleted_ManagedCluster ns) (w_trace w) \<and>
      (Deleted_ManifestWork ns name \<in> set (w_trace w) \<or>
       (hasManifestWork ns name w \<and> Deleted_ManagedCluster ns \<notin> set (w_trace w))))"


text \<open>The time the worker has slept.\<close>

fun slept :: "event list \<Rightarrow> Duration" where
  "slept [] = 0"
| "slept (Slept d # evs) = d + slept evs"
| "slept (ev # evs) = slept evs"

text \<open>The events a step added to the trace, and whether one of them is an update of the
  RegisteredCluster that stores it without the finalizer.\<close>

definition new_events :: "world \<Rightarrow> world \<Rightarrow> event list" where
  "new_events w w' = drop (length (w_trace w)) (w_trace w')"

fun clears_finalizer :: "event \<Rightarrow> bool" where
  "clears_finalizer (Updated_RegisteredCluster fs) = (RegisteredClusterFinalizer \<notin> set fs)"
| "clears_finalizer ev = False"

definition finalizer_cleared :: "world \<Rightarrow> world \<Rightarrow> bool" where
  "finalizer_cleared w w' = list_ex clears_finalizer (new_events w w')"

text \<open>The objects the stages of the orchestrator address, for the ManagedCluster it was given:
  whether one of them is on the hub.\<close>

definition stage_object_present :: "generation \<Rightarrow> RegisteredCluster \<Rightarrow> ManagedCluster \<Rightarrow> world \<Rightarrow> bool" where
  "stage_object_present g rc mc w =
     (case g of
        Controller_go \<Rightarrow>
          hasManifestWork (mc_name mc) (GetSyncerName (rc_name rc)) w \<or>
          hasManagedCluster (mc_name mc) w
      | Part_001 \<Rightarrow>
          hasManifestWork (mc_name mc) ManagedServiceAccountName w \<or>
          (mc_name mc, ManagedServiceAccountName) \<in> set (w_managedServiceAccounts w) \<or>
          (mc_name mc, ManagedClusterAddOnName) \<in> set (w_managedClusterAddOns w) \<or>
          hasManagedCluster (mc_name mc) w)"

text \<open>Whether the hub holds the import secret of a ManagedCluster.\<close>

definition hasImportSecret :: "ManagedCluster \<Rightarrow> world \<Rightarrow> bool" where
  "hasImportSecret mc w =
     list_ex (\<lambda>s. sec_scope s = mc_name mc \<and> sec_name s = mc_name mc @ ''-import'') (w_hubSecrets w)"

text \<open>\<open>keeps_finalizer w w'\<close>: the trace of \<open>w'\<close> is the trace of \<open>w\<close> and then events none of
  which clears the finalizer.\<close>

definition keeps_finalizer :: "world \<Rightarrow> world \<Rightarrow> bool" where
  "keeps_finalizer w w' =
     (\<exists>evs. w_trace w' = w_trace w @ evs \<and> \<not> list_ex clears_finalizer evs)"

section \<open>Properties\<close>

subsection \<open>Labels and selection\<close>

lemma label_names_distinct:
  "RegisteredClusterNamelabel \<noteq> RegisteredClusterNamespacelabel"
  "RegisteredClusterNamelabel \<noteq> RegisteredClusterUidLabel"
  "RegisteredClusterNamelabel \<noteq> ManagedClusterSetlabel"
  "RegisteredClusterNamespacelabel \<noteq> RegisteredClusterUidLabel"
  "RegisteredClusterNamespacelabel \<noteq> ManagedClusterSetlabel"
  "RegisteredClusterUidLabel \<noteq> ManagedClusterSetlabel"
  by (simp_all add: RegisteredClusterNamelabel_def RegisteredClusterNamespacelabel_def
        RegisteredClusterUidLabel_def ManagedClusterSetlabel_def)

lemma matches_own_labels:
  "matchesLabels (getRegisteredClusterLabels rc cn) (map_of (getRegisteredClusterLabels rc cn))"
  using label_names_distinct
  by (auto simp: matchesLabels_def getRegisteredClusterLabels_def)

lemma matches_own_labels_part_001:
  "matchesLabels (correlationLabels_part_001 rc)
     [RegisteredClusterNamelabel \<mapsto> rc_name rc,
      RegisteredClusterNamespacelabel \<mapsto> rc_namespace rc,
      ManagedClusterSetlabel \<mapsto> s]"
  using label_names_distinct
  by (auto simp: matchesLabels_def correlationLabels_part_001_def)

lemma example_mc_selected:
  "matchesLabels (getRegisteredClusterLabels example_rc ''ws'') (mc_labels (example_mc n))"
  by (simp add: example_mc_def matches_own_labels)

lemma labels_ignore_deletion:
  "getRegisteredClusterLabels (rc\<lparr>rc_deletionTimestamp := t\<rparr>) cn = getRegisteredClusterLabels rc cn"
  by (simp add: getRegisteredClusterLabels_def)

lemma example_selected:
  "selected (getRegisteredClusterLabels example_rc ''ws'') (example_world rc mcs works)
     = filter (\<lambda>m. matchesLabels (getRegisteredClusterLabels example_rc ''ws'') (mc_labels m)) mcs"
  by (simp add: selected_def example_world_def)

lemma selected_emit [simp]: "selected sel (emit ev w) = selected sel w"
  by (simp add: selected_def emit_def)

lemma managedClusters_emit [simp]: "w_managedClusters (emit ev w) = w_managedClusters w"
  by (simp add: emit_def)

subsection \<open>getManagedCluster\<close>

text \<open>
  Claim C2, as amended. getManagedCluster lists the ManagedClusters that carry the correlation
  labels. When the List call succeeds: exactly one selected object is returned with no error;
  any other number of selected objects (none, or more than one) gives the empty object with no
  error when the RegisteredCluster is marked for deletion, and the empty object with the error
  "correct managedcluster not found" when it is not. When the List call fails, its error is
  returned wrapped. Both files agree, each with its own selector.
\<close>

theorem getManagedCluster_by_number_of_matches:
  "(fault en List_ManagedCluster_get = None \<longrightarrow>
      (\<forall>m. selected (getRegisteredClusterLabels rc cn) w = [m]
            \<longrightarrow> getManagedCluster en rc cn w = (m, None)) \<and>
      (length (selected (getRegisteredClusterLabels rc cn) w) \<noteq> 1 \<and> rc_deletionTimestamp rc \<noteq> None
            \<longrightarrow> getManagedCluster en rc cn w = (empty_ManagedCluster, None)) \<and>
      (length (selected (getRegisteredClusterLabels rc cn) w) \<noteq> 1 \<and> rc_deletionTimestamp rc = None
            \<longrightarrow> getManagedCluster en rc cn w =
                  (empty_ManagedCluster, Some (Other ''correct managedcluster not found''))) \<and>
      (\<forall>m. selected (correlationLabels_part_001 rc) w = [m]
            \<longrightarrow> getManagedCluster_part_001 en rc w = (m, None)) \<and>
      (length (selected (correlationLabels_part_001 rc) w) \<noteq> 1 \<and> rc_deletionTimestamp rc \<noteq> None
            \<longrightarrow> getManagedCluster_part_001 en rc w = (empty_ManagedCluster, None)) \<and>
      (length (selected (correlationLabels_part_001 rc) w) \<noteq> 1 \<and> rc_deletionTimestamp rc = None
            \<longrightarrow> getManagedCluster_part_001 en rc w =
                  (empty_ManagedCluster, Some (Other ''correct managedcluster not found'')))) \<and>
   (\<forall>e. fault en List_ManagedCluster_get = Some e \<longrightarrow>
      getManagedCluster en rc cn w = (empty_ManagedCluster, Some (WithStack e)) \<and>
      getManagedCluster_part_001 en rc w = (empty_ManagedCluster, Some (WithStack e)))"
  by (simp add: getManagedCluster_def getManagedCluster_part_001_def List_ManagedClusters_def)

text \<open>The theorem at three worlds: one selected ManagedCluster; two, with the RegisteredCluster
  marked for deletion; none, with the RegisteredCluster not marked.\<close>

theorem getManagedCluster_by_number_of_matches_witness:
  "getManagedCluster example_env example_rc ''ws''
     (example_world example_rc (map example_mc [''a'']) []) = (example_mc ''a'', None) \<and>
   getManagedCluster example_env (example_rc\<lparr>rc_deletionTimestamp := Some 1\<rparr>) ''ws''
     (example_world example_rc (map example_mc [''a'', ''b'']) []) = (empty_ManagedCluster, None) \<and>
   getManagedCluster example_env example_rc ''ws''
     (example_world example_rc (map example_mc []) [])
       = (empty_ManagedCluster, Some (Other ''correct managedcluster not found''))"
  using getManagedCluster_by_number_of_matches [of example_env example_rc "''ws''"
          "example_world example_rc (map example_mc [''a'']) []"]
        getManagedCluster_by_number_of_matches [of example_env
          "example_rc\<lparr>rc_deletionTimestamp := Some 1\<rparr>" "''ws''"
          "example_world example_rc (map example_mc [''a'', ''b'']) []"]
        getManagedCluster_by_number_of_matches [of example_env example_rc "''ws''"
          "example_world example_rc (map example_mc []) []"]
  by (simp add: example_env_def labels_ignore_deletion example_selected example_mc_selected)
     (simp add: example_rc_def)

text \<open>Claim C2 as stated fails: the RegisteredCluster is marked for deletion, two
  ManagedClusters carry its correlation labels, and getManagedCluster returns the empty object
  and no error.\<close>

theorem getManagedCluster_two_matches_deleting:
  "selected (getRegisteredClusterLabels (example_rc\<lparr>rc_deletionTimestamp := Some 1\<rparr>) ''ws'')
     (example_world (example_rc\<lparr>rc_deletionTimestamp := Some 1\<rparr>) (map example_mc [''a'', ''b'']) [])
     = [example_mc ''a'', example_mc ''b''] \<and>
   getManagedCluster example_env (example_rc\<lparr>rc_deletionTimestamp := Some 1\<rparr>) ''ws''
     (example_world (example_rc\<lparr>rc_deletionTimestamp := Some 1\<rparr>) (map example_mc [''a'', ''b'']) [])
     = (empty_ManagedCluster, None)"
  by (simp add: getManagedCluster_def List_ManagedClusters_def example_env_def
        labels_ignore_deletion example_selected example_mc_selected)

subsection \<open>The event filter\<close>

text \<open>
  Claim C3, as amended. The filter of the RegisteredCluster accepts every creation event, and
  accepts an update of a RegisteredCluster if and only if the status of the old object and the
  status of the new one are semantically equal, that is if and only if the two statuses agree
  on every field: the conditions (with their observed generations and transition times), the
  allocatable and the capacity quantities, the cluster claims, the version, the API URL, the
  cluster id and the import command reference, a \<^verbatim>\<open>nil\<close> list or map counting as an empty one.
  So an update that changed the status is ignored, and an update that left the status as it
  was is accepted, whatever else of the object it changed (the spec, the metadata, the
  deletion mark). Both files agree.
\<close>

theorem registeredClusterPredicate_accepts_unchanged_status:
  "registeredClusterPredicate (CreateEvent obj) \<and>
   (registeredClusterPredicate
      (UpdateEvent (RegisteredCluster_object old) (RegisteredCluster_object new))
      = Semantic_DeepEqual (rc_status old) (rc_status new)) \<and>
   (Semantic_DeepEqual (rc_status old) (rc_status new)
      = (nilAsEmpty (rcs_conditions (rc_status old)) = nilAsEmpty (rcs_conditions (rc_status new)) \<and>
         nilAsEmptyMap (rcs_allocatable (rc_status old)) = nilAsEmptyMap (rcs_allocatable (rc_status new)) \<and>
         nilAsEmptyMap (rcs_capacity (rc_status old)) = nilAsEmptyMap (rcs_capacity (rc_status new)) \<and>
         nilAsEmpty (rcs_clusterClaims (rc_status old)) = nilAsEmpty (rcs_clusterClaims (rc_status new)) \<and>
         rcs_version (rc_status old) = rcs_version (rc_status new) \<and>
         rcs_apiURL (rc_status old) = rcs_apiURL (rc_status new) \<and>
         rcs_clusterID (rc_status old) = rcs_clusterID (rc_status new) \<and>
         rcs_importCommandRef (rc_status old) = rcs_importCommandRef (rc_status new))) \<and>
   registeredClusterPredicate
      (UpdateEvent (RegisteredCluster_object old)
         (RegisteredCluster_object (new\<lparr>rc_status := rc_status old\<rparr>)))"
  by (simp add: Semantic_DeepEqual_def)

text \<open>Claim C3 as stated fails in both directions: an update that sets the API URL of the
  status changes the status and is ignored; an update that only marks the object for deletion
  leaves the status as it was and is accepted.\<close>

theorem registeredClusterPredicate_status_change_ignored:
  "\<not> Semantic_DeepEqual (rc_status example_rc)
       (rc_status (example_rc\<lparr>rc_status := example_status\<lparr>rcs_apiURL := ''https://10.0.0.1:6443''\<rparr>\<rparr>)) \<and>
   \<not> registeredClusterPredicate
       (UpdateEvent (RegisteredCluster_object example_rc)
          (RegisteredCluster_object
             (example_rc\<lparr>rc_status := example_status\<lparr>rcs_apiURL := ''https://10.0.0.1:6443''\<rparr>\<rparr>))) \<and>
   Semantic_DeepEqual (rc_status example_rc) (rc_status (example_rc\<lparr>rc_deletionTimestamp := Some 1\<rparr>)) \<and>
   registeredClusterPredicate
       (UpdateEvent (RegisteredCluster_object example_rc)
          (RegisteredCluster_object (example_rc\<lparr>rc_deletionTimestamp := Some 1\<rparr>)))"
  by (simp add: Semantic_DeepEqual_def example_rc_def example_status_def)

text \<open>A change of nothing but the transition time of a condition, or of nothing but its
  observed generation, is a change of the status: the update is ignored.\<close>

lemma registeredClusterPredicate_transition_time_change_ignored:
  "\<not> registeredClusterPredicate
       (UpdateEvent (RegisteredCluster_object joined_rc)
          (RegisteredCluster_object
             (joined_rc\<lparr>rc_status := example_status
                \<lparr>rcs_conditions := Some [joined\<lparr>cond_lastTransitionTime := 1700000060\<rparr>]\<rparr>\<rparr>))) \<and>
   \<not> registeredClusterPredicate
       (UpdateEvent (RegisteredCluster_object joined_rc)
          (RegisteredCluster_object
             (joined_rc\<lparr>rc_status := example_status
                \<lparr>rcs_conditions := Some [joined\<lparr>cond_observedGeneration := 2\<rparr>]\<rparr>\<rparr>)))"
  by (simp add: Semantic_DeepEqual_def joined_rc_def joined_def example_status_def nilAsEmpty_def)

text \<open>A status whose lists and maps are \<^verbatim>\<open>nil\<close> and one whose lists and maps are empty are
  semantically equal: the update is accepted.\<close>

lemma registeredClusterPredicate_nil_is_empty:
  "registeredClusterPredicate
       (UpdateEvent (RegisteredCluster_object example_rc)
          (RegisteredCluster_object
             (example_rc\<lparr>rc_status := example_status
                \<lparr>rcs_conditions := Some [], rcs_allocatable := Some Map.empty,
                 rcs_capacity := Some Map.empty, rcs_clusterClaims := Some []\<rparr>\<rparr>)))"
  by (simp add: Semantic_DeepEqual_def example_rc_def example_status_def nilAsEmpty_def
        nilAsEmptyMap_def)

subsection \<open>createManagedCluster\<close>

text \<open>One call either leaves the world as it is (and then, if it returned no error, some
  ManagedCluster was selected), or returns no error and has created one ManagedCluster.\<close>

lemma createManagedCluster_of_cases:
  assumes "createManagedCluster_of g en rc cn w = (r, w')"
  shows "(w' = w \<and> (r = None \<longrightarrow> selected (correlationLabels_of g rc cn) w \<noteq> []))
         \<or> (r = None \<and> created_one g en rc cn w w')"
proof (cases g)
  case Controller_go
  with assms show ?thesis
    by (auto simp: createManagedCluster_of_def createManagedCluster_def correlationLabels_of_def
          List_ManagedClusters_def Create_ManagedCluster_call_def created_one_def
          matches_own_labels empty_ManagedCluster_def Let_def
        split: option.splits if_splits intro!: exI)
next
  case Part_001
  with assms show ?thesis
    by (auto simp: createManagedCluster_of_def createManagedCluster_part_001_def
          correlationLabels_of_def List_ManagedClusters_def Create_ManagedCluster_call_def
          created_one_def matches_own_labels_part_001 empty_ManagedCluster_def Let_def
        split: option.splits if_splits intro!: exI)
qed

lemma created_one_selected:
  "created_one g en rc cn w w' \<Longrightarrow> selected (correlationLabels_of g rc cn) w' \<noteq> []"
  by (auto simp: created_one_def selected_def)

lemma created_one_length:
  "created_one g en rc cn w w' \<Longrightarrow> length (w_managedClusters w') = Suc (length (w_managedClusters w))"
  by (auto simp: created_one_def)

lemma createManagedCluster_of_noop:
  assumes "selected (correlationLabels_of g rc cn) w \<noteq> []"
  shows "snd (createManagedCluster_of g en rc cn w) = w"
proof -
  obtain r w' where c: "createManagedCluster_of g en rc cn w = (r, w')"
    by (cases "createManagedCluster_of g en rc cn w")
  from createManagedCluster_of_cases [OF c] assms have "w' = w"
    by (auto simp: created_one_def)
  with c show ?thesis by simp
qed

text \<open>
  Claim C6. createManagedCluster lists the ManagedClusters that carry the correlation labels;
  it changes the world only when the list is empty, and is a no-op when one or more are found.
  Two calls in a row, with nothing else changing the world in between and whatever each
  environment does (errors, generated suffix): when the first call returned no error the second
  changes nothing; in any case the hub holds at most one ManagedCluster more than before. Both
  files.
\<close>

theorem createManagedCluster_idempotent:
  assumes first: "createManagedCluster_of g en1 rc cn w = (r1, w1)"
      and second: "createManagedCluster_of g en2 rc cn w1 = (r2, w2)"
  shows "(w1 \<noteq> w \<longrightarrow> selected (correlationLabels_of g rc cn) w = []) \<and>
         (r1 = None \<longrightarrow> w2 = w1) \<and>
         length (w_managedClusters w2) \<le> Suc (length (w_managedClusters w))"
proof -
  note c1 = createManagedCluster_of_cases [OF first]
  note c2 = createManagedCluster_of_cases [OF second]
  have a: "w1 \<noteq> w \<longrightarrow> selected (correlationLabels_of g rc cn) w = []"
    using c1 by (auto simp: created_one_def)
  have b: "r1 = None \<longrightarrow> w2 = w1"
  proof
    assume "r1 = None"
    with c1 have "selected (correlationLabels_of g rc cn) w1 \<noteq> []"
      by (auto dest: created_one_selected)
    from createManagedCluster_of_noop [OF this, of en2] second show "w2 = w1" by simp
  qed
  have c: "length (w_managedClusters w2) \<le> Suc (length (w_managedClusters w))"
  proof (cases "r1 = None")
    case True
    with b have "w2 = w1" by simp
    with c1 show ?thesis by (auto dest: created_one_length)
  next
    case False
    with c1 have "w1 = w" by auto
    with c2 show ?thesis by (auto dest: created_one_length)
  qed
  from a b c show ?thesis by simp
qed

text \<open>The first call in a world with no ManagedCluster: it creates one, under the generated
  name.\<close>

lemma example_create:
  "createManagedCluster_of Controller_go example_env example_rc ''ws'' (example_world example_rc [] [])
     = (None, emit (Created_ManagedCluster ''registered-cluster-x7k2p'')
                (example_world example_rc
                   [empty_ManagedCluster
                      \<lparr>mc_generateName := ''registered-cluster-'',
                       mc_labels := map_of (getRegisteredClusterLabels example_rc ''ws''),
                       mc_annotations := [''open-cluster-management/service-name'' \<mapsto> ''compute'',
                                          ClusterNameAnnotation \<mapsto> ''ws''],
                       mc_hubAcceptsClient := True,
                       mc_name := ''registered-cluster-x7k2p''\<rparr>] []))"
  by (simp add: createManagedCluster_of_def createManagedCluster_def List_ManagedClusters_def
        Create_ManagedCluster_call_def example_env_def selected_def empty_ManagedCluster_def
        example_world_def emit_def Let_def)

text \<open>The theorem at that world: the first call returns no error, the second leaves the
  world of the first, and one ManagedCluster is there.\<close>

theorem createManagedCluster_idempotent_witness:
  "fst (createManagedCluster_of Controller_go example_env example_rc ''ws''
          (example_world example_rc [] [])) = None \<and>
   snd (createManagedCluster_of Controller_go example_env example_rc ''ws''
          (snd (createManagedCluster_of Controller_go example_env example_rc ''ws''
                  (example_world example_rc [] []))))
     = snd (createManagedCluster_of Controller_go example_env example_rc ''ws''
              (example_world example_rc [] [])) \<and>
   length (w_managedClusters
     (snd (createManagedCluster_of Controller_go example_env example_rc ''ws''
          (snd (createManagedCluster_of Controller_go example_env example_rc ''ws''
                  (example_world example_rc [] [])))))) \<le> Suc 0"
proof -
  let ?w = "example_world example_rc [] []"
  obtain r1 w1 where f: "createManagedCluster_of Controller_go example_env example_rc ''ws'' ?w = (r1, w1)"
    by (cases "createManagedCluster_of Controller_go example_env example_rc ''ws'' ?w")
  obtain r2 w2 where s: "createManagedCluster_of Controller_go example_env example_rc ''ws'' w1 = (r2, w2)"
    by (cases "createManagedCluster_of Controller_go example_env example_rc ''ws'' w1")
  have r1: "r1 = None" using f by (simp add: example_create)
  from createManagedCluster_idempotent [OF f s] r1
  have "w2 = w1" and "length (w_managedClusters w2) \<le> Suc (length (w_managedClusters ?w))"
    by blast+
  moreover have "w_managedClusters ?w = []" by (simp add: example_world_def)
  ultimately show ?thesis using f s r1 by simp
qed

text \<open>
  Claim C10. Every ManagedCluster that createManagedCluster adds to the hub has the
  generate-name prefix \<^verbatim>\<open>registered-cluster-\<close> (and a name that starts with it), has
  \<^verbatim>\<open>HubAcceptsClient\<close> set, and carries the name label with the name of the RegisteredCluster,
  the namespace label with its namespace, and the cluster-set label with
  ManagedClusterSetNameForWorkspace of the workspace name: the logical cluster of the request in
  the controller file, the namespace of the RegisteredCluster in \<^verbatim>\<open>part_001\<close>.
\<close>

theorem createManagedCluster_creates_labelled:
  assumes "createManagedCluster_of g en rc cn w = (r, w')"
  shows "\<forall>m. m \<in> set (w_managedClusters w') \<and> m \<notin> set (w_managedClusters w) \<longrightarrow>
           mc_generateName m = ''registered-cluster-'' \<and>
           mc_name m = ''registered-cluster-'' @ generatedSuffix en \<and>
           mc_hubAcceptsClient m \<and>
           mc_labels m RegisteredClusterNamelabel = Some (rc_name rc) \<and>
           mc_labels m RegisteredClusterNamespacelabel = Some (rc_namespace rc) \<and>
           mc_labels m ManagedClusterSetlabel =
             Some (ManagedClusterSetNameForWorkspace
                     (case g of Controller_go \<Rightarrow> cn | Part_001 \<Rightarrow> rc_namespace rc))"
proof (cases g)
  case Controller_go
  with assms show ?thesis
    using label_names_distinct
    by (auto simp: createManagedCluster_of_def createManagedCluster_def
          List_ManagedClusters_def Create_ManagedCluster_call_def getRegisteredClusterLabels_def
          empty_ManagedCluster_def Let_def
        split: option.splits if_splits)
next
  case Part_001
  with assms show ?thesis
    using label_names_distinct
    by (auto simp: createManagedCluster_of_def createManagedCluster_part_001_def
          List_ManagedClusters_def Create_ManagedCluster_call_def
          empty_ManagedCluster_def Let_def
        split: option.splits if_splits)
qed

text \<open>The theorem at the world with no ManagedCluster.\<close>

theorem createManagedCluster_creates_labelled_witness:
  "(\<exists>m. w_managedClusters (snd (createManagedCluster_of Controller_go example_env example_rc ''ws''
            (example_world example_rc [] []))) = [m] \<and>
        mc_generateName m = ''registered-cluster-'' \<and>
        mc_name m = ''registered-cluster-x7k2p'' \<and>
        mc_hubAcceptsClient m \<and>
        mc_labels m RegisteredClusterNamelabel = Some ''cluster-1'' \<and>
        mc_labels m RegisteredClusterNamespacelabel = Some ''team-a'' \<and>
        mc_labels m ManagedClusterSetlabel = Some ''ws'')"
proof -
  let ?w = "example_world example_rc [] []"
  obtain r w' where f: "createManagedCluster_of Controller_go example_env example_rc ''ws'' ?w = (r, w')"
    by (cases "createManagedCluster_of Controller_go example_env example_rc ''ws'' ?w")
  then have "w_managedClusters w' =
      w_managedClusters (example_world example_rc
                   [empty_ManagedCluster
                      \<lparr>mc_generateName := ''registered-cluster-'',
                       mc_labels := map_of (getRegisteredClusterLabels example_rc ''ws''),
                       mc_annotations := [''open-cluster-management/service-name'' \<mapsto> ''compute'',
                                          ClusterNameAnnotation \<mapsto> ''ws''],
                       mc_hubAcceptsClient := True,
                       mc_name := ''registered-cluster-x7k2p''\<rparr>] [])"
    by (auto simp: example_create emit_def)
  then obtain m where m: "w_managedClusters w' = [m]"
    by (simp add: example_world_def)
  have "m \<in> set (w_managedClusters w') \<and> m \<notin> set (w_managedClusters ?w)"
    using m by (simp add: example_world_def)
  with createManagedCluster_creates_labelled [OF f] have
    "mc_generateName m = ''registered-cluster-'' \<and>
     mc_name m = ''registered-cluster-'' @ generatedSuffix example_env \<and>
     mc_hubAcceptsClient m \<and>
     mc_labels m RegisteredClusterNamelabel = Some (rc_name example_rc) \<and>
     mc_labels m RegisteredClusterNamespacelabel = Some (rc_namespace example_rc) \<and>
     mc_labels m ManagedClusterSetlabel = Some (ManagedClusterSetNameForWorkspace ''ws'')"
    by simp
  with f m show ?thesis
    by (simp add: example_env_def example_rc_def ManagedClusterSetNameForWorkspace_def)
qed

subsection \<open>syncKcpSyncer\<close>

lemma manifestWorks_emit [simp]: "w_manifestWorks (emit ev w) = w_manifestWorks w"
  by (simp add: emit_def)

lemma syncKcpSyncer_of_not_joined:
  assumes "GetConditionStatus (rcs_conditions (rc_status rc)) ManagedClusterConditionJoined
             \<noteq> Some ConditionTrue"
  shows "syncKcpSyncer_of g en rc mc token w = (None, w)"
  using assms
  by (cases g) (simp_all add: syncKcpSyncer_of_def syncKcpSyncer_def syncKcpSyncer_part_001_def)

lemma Apply_SyncerManifestWork_present:
  assumes "Apply_SyncerManifestWork_call en ns name lbls vals w = (None, w')"
  shows "\<exists>work \<in> set (w_manifestWorks w'). mw_namespace work = ns \<and> mw_name work = name \<and>
            mw_labels work = lbls \<and> mw_values work = vals"
  using assms
  by (auto simp: Apply_SyncerManifestWork_call_def Let_def split: option.splits)

lemma syncKcpSyncer_of_joined:
  assumes j: "GetConditionStatus (rcs_conditions (rc_status rc)) ManagedClusterConditionJoined
             = Some ConditionTrue"
      and p: "fault en Parse_ComputeHost = None" and a: "fault en Apply_SyncerManifestWork = None"
  shows "\<exists>work \<in> set (w_manifestWorks (snd (syncKcpSyncer_of g en rc mc token w))).
           mw_namespace work = mc_name mc \<and> mw_name work = GetSyncerName (rc_name rc) \<and>
           mw_labels work RegisteredClusterNamelabel = Some (rc_name rc) \<and>
           mw_labels work RegisteredClusterNamespacelabel = Some (rc_namespace rc)"
proof -
  have l: "RegisteredClusterNamelabel \<noteq> RegisteredClusterNamespacelabel"
    by (rule label_names_distinct)
  show ?thesis
  proof (cases g)
    case Controller_go
    then show ?thesis using j p a l
      by (simp add: syncKcpSyncer_of_def syncKcpSyncer_def Apply_SyncerManifestWork_call_def
            Let_def split: sum.splits)
  next
    case Part_001
    then show ?thesis using j p a l
      by (simp add: syncKcpSyncer_of_def syncKcpSyncer_part_001_def Apply_SyncerManifestWork_call_def
            Let_def split: sum.splits)
  qed
qed

text \<open>
  Claim C4, as amended. syncKcpSyncer applies the Syncer Deployment Descriptor only when the
  status conditions of the RegisteredCluster itself hold the Joined condition with status True
  (the conditions that updateRegisteredClusterStatus merged into it in an earlier reconcile);
  when that condition is absent or not True the call changes nothing and returns no error.
  When it is True and neither parsing the host nor the apply fails, the descriptor is on the
  hub afterwards, in the namespace of the ManagedCluster, under the syncer name and with the
  correlation labels. The status of the ManagedCluster that is passed in is not read. Both
  files.
\<close>

theorem syncKcpSyncer_gated_on_projected_condition:
  "(GetConditionStatus (rcs_conditions (rc_status rc)) ManagedClusterConditionJoined
      \<noteq> Some ConditionTrue
      \<longrightarrow> syncKcpSyncer_of g en rc mc token w = (None, w)) \<and>
   (snd (syncKcpSyncer_of g en rc mc token w) \<noteq> w
      \<longrightarrow> GetConditionStatus (rcs_conditions (rc_status rc)) ManagedClusterConditionJoined
            = Some ConditionTrue) \<and>
   (GetConditionStatus (rcs_conditions (rc_status rc)) ManagedClusterConditionJoined
      = Some ConditionTrue \<and>
    fault en Parse_ComputeHost = None \<and> fault en Apply_SyncerManifestWork = None
      \<longrightarrow> (\<exists>work \<in> set (w_manifestWorks (snd (syncKcpSyncer_of g en rc mc token w))).
             mw_namespace work = mc_name mc \<and> mw_name work = GetSyncerName (rc_name rc) \<and>
             mw_labels work RegisteredClusterNamelabel = Some (rc_name rc) \<and>
             mw_labels work RegisteredClusterNamespacelabel = Some (rc_namespace rc))) \<and>
   (\<forall>st. syncKcpSyncer_of g en rc (mc\<lparr>mc_status := st\<rparr>) token w
           = syncKcpSyncer_of g en rc mc token w)"
proof -
  have "\<forall>st. syncKcpSyncer_of g en rc (mc\<lparr>mc_status := st\<rparr>) token w
           = syncKcpSyncer_of g en rc mc token w"
    by (cases g)
       (simp_all add: syncKcpSyncer_of_def syncKcpSyncer_def syncKcpSyncer_part_001_def Let_def
          cong: option.case_cong)
  moreover have "snd (syncKcpSyncer_of g en rc mc token w) \<noteq> w
      \<longrightarrow> GetConditionStatus (rcs_conditions (rc_status rc)) ManagedClusterConditionJoined
            = Some ConditionTrue"
    using syncKcpSyncer_of_not_joined [of rc g en mc token w]
    by (cases "GetConditionStatus (rcs_conditions (rc_status rc)) ManagedClusterConditionJoined
            = Some ConditionTrue") simp_all
  ultimately show ?thesis
    using syncKcpSyncer_of_not_joined [of rc g en mc token w]
          syncKcpSyncer_of_joined [of rc en g mc token w]
    by blast
qed

lemma example_not_joined:
  "GetConditionStatus (rcs_conditions (rc_status example_rc)) ManagedClusterConditionJoined = None"
  by (simp add: example_rc_def example_status_def)

lemma example_joined:
  "GetConditionStatus (rcs_conditions (rc_status joined_rc)) ManagedClusterConditionJoined
     = Some ConditionTrue"
  by (simp add: joined_rc_def joined_def)

text \<open>The theorem at two inputs: a RegisteredCluster without the condition, and one with it.\<close>

theorem syncKcpSyncer_gated_on_projected_condition_witness:
  "syncKcpSyncer_of Controller_go example_env example_rc joined_mc ''token''
       (example_world example_rc [joined_mc] []) = (None, example_world example_rc [joined_mc] []) \<and>
   (\<exists>work \<in> set (w_manifestWorks (snd (syncKcpSyncer_of Part_001 example_env joined_rc
                      (example_mc ''mc1'') ''token'' (example_world joined_rc [example_mc ''mc1''] [])))).
       mw_namespace work = ''mc1'' \<and> mw_name work = ''kcp-syncer-cluster-1'')"
proof -
  have n: "rc_name joined_rc = ''cluster-1''" "mc_name (example_mc ''mc1'') = ''mc1''"
    by (simp_all add: joined_rc_def example_rc_def example_mc_def)
  have f: "fault example_env Parse_ComputeHost = None" "fault example_env Apply_SyncerManifestWork = None"
    by (simp_all add: example_env_def)
  show ?thesis
    using syncKcpSyncer_gated_on_projected_condition [of example_rc Controller_go example_env joined_mc
            "''token''" "example_world example_rc [joined_mc] []"]
          syncKcpSyncer_gated_on_projected_condition [of joined_rc Part_001 example_env "example_mc ''mc1''"
            "''token''" "example_world joined_rc [example_mc ''mc1''] []"]
          example_not_joined example_joined n f
    by (simp add: GetSyncerName_def GetSyncerPrefix_def) blast
qed

text \<open>Claim C4 as stated fails: the ManagedCluster reports no Joined condition, the
  RegisteredCluster still holds one, and the descriptor is applied; the ManagedCluster reports
  Joined with status True, the RegisteredCluster does not hold it yet, and nothing is
  applied.\<close>

theorem syncKcpSyncer_reads_projected_condition:
  "GetConditionStatus (mcs_conditions (mc_status (example_mc ''mc1''))) ManagedClusterConditionJoined = None \<and>
   w_manifestWorks (example_world joined_rc [example_mc ''mc1''] []) = [] \<and>
   w_manifestWorks (snd (syncKcpSyncer example_env joined_rc (example_mc ''mc1'') ''token''
                           (example_world joined_rc [example_mc ''mc1''] []))) \<noteq> [] \<and>
   GetConditionStatus (mcs_conditions (mc_status joined_mc)) ManagedClusterConditionJoined
     = Some ConditionTrue \<and>
   syncKcpSyncer example_env example_rc joined_mc ''token'' (example_world example_rc [joined_mc] [])
     = (None, example_world example_rc [joined_mc] [])"
proof -
  have 1: "GetConditionStatus (mcs_conditions (mc_status (example_mc ''mc1''))) ManagedClusterConditionJoined = None"
    by (simp add: example_mc_def empty_ManagedCluster_def)
  have 2: "w_manifestWorks (example_world joined_rc [example_mc ''mc1''] []) = []"
    by (simp add: example_world_def)
  have 3: "w_manifestWorks (snd (syncKcpSyncer example_env joined_rc (example_mc ''mc1'') ''token''
                           (example_world joined_rc [example_mc ''mc1''] []))) \<noteq> []"
    using example_joined
    by (simp add: syncKcpSyncer_def Apply_SyncerManifestWork_call_def example_env_def Let_def
          split: sum.splits)
  have 4: "GetConditionStatus (mcs_conditions (mc_status joined_mc)) ManagedClusterConditionJoined
     = Some ConditionTrue"
    by (simp add: joined_mc_def joined_def)
  have 5: "syncKcpSyncer example_env example_rc joined_mc ''token'' (example_world example_rc [joined_mc] [])
     = (None, example_world example_rc [joined_mc] [])"
    using example_not_joined by (simp add: syncKcpSyncer_def)
  from 1 2 3 4 5 show ?thesis by simp
qed

subsection \<open>updateRegisteredClusterStatus\<close>

lemma setStatusCondition_keeps:
  "c \<in> set cs \<Longrightarrow> cond_type c \<noteq> cond_type n \<Longrightarrow> c \<in> set (setStatusCondition cs n)"
  by (induction cs) auto

lemma setStatusCondition_has: "n \<in> set (setStatusCondition cs n)"
  by (induction cs) auto

lemma setStatusCondition_types:
  "cond_type ` set (setStatusCondition cs n) = insert (cond_type n) (cond_type ` set cs)"
  by (induction cs) auto

lemma foldl_setStatusCondition_keeps:
  "c \<in> set cs \<Longrightarrow> cond_type c \<notin> cond_type ` set new
     \<Longrightarrow> c \<in> set (foldl setStatusCondition cs new)"
  by (induction new arbitrary: cs) (auto simp: setStatusCondition_keeps)

lemma foldl_setStatusCondition_types:
  "cond_type ` set (foldl setStatusCondition cs new) = cond_type ` set cs \<union> cond_type ` set new"
  by (induction new arbitrary: cs) (auto simp: setStatusCondition_types)

lemma fst_fst_patch:
  "fst (fst (case p of (Some err, w') \<Rightarrow> ((r, Some (f err)), w') | (None, w') \<Rightarrow> ((r, None), w'))) = r"
  by (simp split: prod.splits option.splits)

lemma projected_eq:
  "projected rc mc en w =
     (rc_status rc)
       \<lparr>rcs_conditions := (case mcs_conditions (mc_status mc) of
                             None \<Rightarrow> rcs_conditions (rc_status rc)
                           | Some cs \<Rightarrow> MergeStatusConditions (rcs_conditions (rc_status rc)) cs),
        rcs_allocatable := (case mcs_allocatable (mc_status mc) of
                              None \<Rightarrow> rcs_allocatable (rc_status rc) | Some a \<Rightarrow> Some a),
        rcs_capacity := (case mcs_capacity (mc_status mc) of
                              None \<Rightarrow> rcs_capacity (rc_status rc) | Some a \<Rightarrow> Some a),
        rcs_clusterClaims := (case mcs_clusterClaims (mc_status mc) of
                              None \<Rightarrow> rcs_clusterClaims (rc_status rc) | Some a \<Rightarrow> Some a),
        rcs_version := (if mcs_version (mc_status mc) = \<lparr>ver_kubernetes = []\<rparr>
                        then rcs_version (rc_status rc) else mcs_version (mc_status mc)),
        rcs_apiURL := (case mc_clientConfigs mc of
                         [] \<Rightarrow> rcs_apiURL (rc_status rc) | c # _ \<Rightarrow> cc_url c),
        rcs_clusterID := (case mc_labels mc ''clusterID'' of
                            None \<Rightarrow> rcs_clusterID (rc_status rc) | Some i \<Rightarrow> i)\<rparr>"
  unfolding projected_def updateRegisteredClusterStatus_def Let_def fst_fst_patch
  by (cases "mcs_conditions (mc_status mc)"; cases "mcs_allocatable (mc_status mc)";
      cases "mcs_capacity (mc_status mc)"; cases "mcs_clusterClaims (mc_status mc)";
      cases "mcs_version (mc_status mc) = \<lparr>ver_kubernetes = []\<rparr>";
      cases "mc_clientConfigs mc"; cases "mc_labels mc ''clusterID''"; simp)



lemma merge_keeps_unreported:
  "c \<in> set old \<Longrightarrow> cond_type c \<notin> cond_type ` set new
     \<Longrightarrow> \<exists>merged. MergeStatusConditions (Some old) new = Some merged \<and> c \<in> set merged \<and>
                 cond_type ` set merged = cond_type ` set old \<union> cond_type ` set new"
  by (simp add: MergeStatusConditions_def foldl_setStatusCondition_keeps
          foldl_setStatusCondition_types)

lemma projected_two_conditions:
  "cond_type a \<noteq> cond_type b \<Longrightarrow> rcs_conditions (rc_status rc) = Some [a]
     \<Longrightarrow> mcs_conditions (mc_status mc) = Some [b]
     \<Longrightarrow> rcs_conditions (projected rc mc en w) = Some [a, b]"
  by (simp add: projected_eq MergeStatusConditions_def)

text \<open>When the patch succeeds, the stored object has the projected status.\<close>

lemma patched_shape:
  "snd (fst (case Patch_Status_call en c r w of
               (Some err, w') \<Rightarrow> ((r, Some (WithStack err)), w')
             | (None, w') \<Rightarrow> ((r, None), w'))) = None
   \<Longrightarrow> (\<forall>x \<in> set (w_registeredClusters
                       (snd (case Patch_Status_call en c r w of
                               (Some err, w') \<Rightarrow> ((r, Some (WithStack err)), w')
                             | (None, w') \<Rightarrow> ((r, None), w')))).
          sameKey r x \<longrightarrow>
            rc_status x = rc_status (fst (fst (case Patch_Status_call en c r w of
               (Some err, w') \<Rightarrow> ((r, Some (WithStack err)), w')
             | (None, w') \<Rightarrow> ((r, None), w')))))"
  by (auto simp: Patch_Status_call_def emit_def split: prod.splits option.splits if_splits)

lemma sameKey_status [simp]: "sameKey (r\<lparr>rc_status := s\<rparr>) x = sameKey r x"
  by (simp add: sameKey_def)

lemma projected_stored:
  "snd (fst (updateRegisteredClusterStatus en rc mc w)) = None
   \<Longrightarrow> \<forall>x \<in> set (w_registeredClusters (snd (updateRegisteredClusterStatus en rc mc w))).
          sameKey rc x \<longrightarrow> rc_status x = projected rc mc en w"
  unfolding projected_def updateRegisteredClusterStatus_def Let_def
  by (drule patched_shape) simp

text \<open>
  Claim C8, as amended. updateRegisteredClusterStatus copies each downstream field into the
  status exactly when the field is present: conditions, allocatable, capacity and cluster
  claims when they are not \<^verbatim>\<open>nil\<close> (an empty value that is not \<^verbatim>\<open>nil\<close> is copied), the version
  when it is not the zero value, the URL of the first client config when there is one, the
  clusterID label when the ManagedCluster has the key (also with an empty value); every other
  field of the status stays. Conditions are merged, not replaced: a condition of the intent
  status whose type the ManagedCluster does not report is in the merged list, and the types of
  the merged list are those of both lists; an intent status with the one condition \<open>a\<close> and a
  report of the one condition \<open>b\<close> of another type give the conditions \<open>a\<close>, \<open>b\<close>. When the
  patch returns no error, the stored RegisteredCluster has that status.
\<close>

theorem updateRegisteredClusterStatus_copies_present_fields:
  "projected rc mc en w =
     (rc_status rc)
       \<lparr>rcs_conditions := (case mcs_conditions (mc_status mc) of
                             None \<Rightarrow> rcs_conditions (rc_status rc)
                           | Some cs \<Rightarrow> MergeStatusConditions (rcs_conditions (rc_status rc)) cs),
        rcs_allocatable := (case mcs_allocatable (mc_status mc) of
                              None \<Rightarrow> rcs_allocatable (rc_status rc) | Some a \<Rightarrow> Some a),
        rcs_capacity := (case mcs_capacity (mc_status mc) of
                              None \<Rightarrow> rcs_capacity (rc_status rc) | Some a \<Rightarrow> Some a),
        rcs_clusterClaims := (case mcs_clusterClaims (mc_status mc) of
                              None \<Rightarrow> rcs_clusterClaims (rc_status rc) | Some a \<Rightarrow> Some a),
        rcs_version := (if mcs_version (mc_status mc) = \<lparr>ver_kubernetes = []\<rparr>
                        then rcs_version (rc_status rc) else mcs_version (mc_status mc)),
        rcs_apiURL := (case mc_clientConfigs mc of
                         [] \<Rightarrow> rcs_apiURL (rc_status rc) | c # _ \<Rightarrow> cc_url c),
        rcs_clusterID := (case mc_labels mc ''clusterID'' of
                            None \<Rightarrow> rcs_clusterID (rc_status rc) | Some i \<Rightarrow> i)\<rparr> \<and>
   (\<forall>old new c. c \<in> set old \<and> cond_type c \<notin> cond_type ` set new
       \<longrightarrow> (\<exists>merged. MergeStatusConditions (Some old) new = Some merged \<and> c \<in> set merged \<and>
                 cond_type ` set merged = cond_type ` set old \<union> cond_type ` set new)) \<and>
   (\<forall>a b. cond_type a \<noteq> cond_type b \<and>
           rcs_conditions (rc_status rc) = Some [a] \<and> mcs_conditions (mc_status mc) = Some [b]
       \<longrightarrow> rcs_conditions (projected rc mc en w) = Some [a, b]) \<and>
   (snd (fst (updateRegisteredClusterStatus en rc mc w)) = None
       \<longrightarrow> (\<forall>x \<in> set (w_registeredClusters (snd (updateRegisteredClusterStatus en rc mc w))).
              sameKey rc x \<longrightarrow> rc_status x = projected rc mc en w))"
  using projected_eq [of rc mc en w] merge_keeps_unreported
        projected_two_conditions [of _ _ rc mc en w] projected_stored [of en rc mc w]
  by blast

text \<open>The theorem at the conditions A and B, both True.\<close>

theorem updateRegisteredClusterStatus_copies_present_fields_witness:
  "rcs_conditions
     (projected (example_rc\<lparr>rc_status := example_status\<lparr>rcs_conditions := Some [condition_A]\<rparr>\<rparr>)
        ((example_mc ''mc1'')\<lparr>mc_status := (mc_status (example_mc ''mc1''))
                                 \<lparr>mcs_conditions := Some [condition_B]\<rparr>\<rparr>)
        example_env (example_world example_rc [] []))
     = Some [condition_A, condition_B]"
proof -
  let ?rc = "example_rc\<lparr>rc_status := example_status\<lparr>rcs_conditions := Some [condition_A]\<rparr>\<rparr>"
  let ?mc = "(example_mc ''mc1'')\<lparr>mc_status := (mc_status (example_mc ''mc1''))
                                 \<lparr>mcs_conditions := Some [condition_B]\<rparr>\<rparr>"
  have h: "cond_type condition_A \<noteq> cond_type condition_B \<and>
           rcs_conditions (rc_status ?rc) = Some [condition_A] \<and>
           mcs_conditions (mc_status ?mc) = Some [condition_B]"
    by (simp add: condition_A_def condition_B_def)
  from updateRegisteredClusterStatus_copies_present_fields
         [of ?rc ?mc example_env "example_world example_rc [] []"]
  have "\<forall>a b. cond_type a \<noteq> cond_type b \<and>
           rcs_conditions (rc_status ?rc) = Some [a] \<and> mcs_conditions (mc_status ?mc) = Some [b]
       \<longrightarrow> rcs_conditions (projected ?rc ?mc example_env (example_world example_rc [] []))
             = Some [a, b]"
    by blast
  with h show ?thesis by blast
qed

text \<open>Claim C8 as stated fails: a clusterID label with an empty value replaces the cluster id
  of the status, and an allocatable map that is empty but not \<^verbatim>\<open>nil\<close> replaces the allocatable
  resources of the status.\<close>

theorem updateRegisteredClusterStatus_copies_empty_values:
  "mc_labels ((example_mc ''mc1'')\<lparr>mc_labels := [''clusterID'' \<mapsto> []]\<rparr>) ''clusterID'' = Some [] \<and>
   rcs_clusterID (rc_status (example_rc\<lparr>rc_status := example_status\<lparr>rcs_clusterID := ''c-42''\<rparr>\<rparr>))
     = ''c-42'' \<and>
   rcs_clusterID
     (projected (example_rc\<lparr>rc_status := example_status\<lparr>rcs_clusterID := ''c-42''\<rparr>\<rparr>)
        ((example_mc ''mc1'')\<lparr>mc_labels := [''clusterID'' \<mapsto> []]\<rparr>)
        example_env (example_world example_rc [] [])) = [] \<and>
   rcs_allocatable
     (projected (example_rc\<lparr>rc_status := example_status\<lparr>rcs_allocatable := Some [''cpu'' \<mapsto> 4]\<rparr>\<rparr>)
        ((example_mc ''mc1'')\<lparr>mc_status := (mc_status (example_mc ''mc1''))
                                 \<lparr>mcs_allocatable := Some Map.empty\<rparr>\<rparr>)
        example_env (example_world example_rc [] [])) = Some Map.empty"
  by (simp add: projected_eq)

subsection \<open>processRegclusterDeletion\<close>

text \<open>In the controller file the ManagedCluster is asked to go only after the Syncer Deployment
  Descriptor was: over any number of runs of the orchestrator whose Gets are truthful, from a
  world in which the descriptor is there and the ManagedCluster has not been asked to go.\<close>

lemma precedes_append_a: "a \<noteq> b \<Longrightarrow> b \<notin> set tr \<Longrightarrow> precedes a b (tr @ a # rest)"
  by (induction tr) auto

lemma precedes_extend: "precedes a b tr \<Longrightarrow> a \<in> set tr \<Longrightarrow> precedes a b (tr @ sfx)"
  by (induction tr) (auto split: if_splits)

lemma precedes_no_b: "b \<notin> set tr \<Longrightarrow> precedes a b tr"
  by (induction tr) auto

lemma Get_ManifestWork_found:
  assumes "hasManifestWork ns name w" and "case fault en c of None \<Rightarrow> True | Some e \<Rightarrow> \<not> IsNotFound e"
  shows "case Get_ManifestWork_call en c ns name w of
           Inl e \<Rightarrow> \<not> IsNotFound e
         | Inr x \<Rightarrow> mw_namespace x = ns \<and> mw_name x = name"
proof -
  have "filter (\<lambda>x. mw_namespace x = ns \<and> mw_name x = name) (w_manifestWorks w) \<noteq> []"
    using assms(1) by (auto simp: hasManifestWork_def list_ex_iff filter_empty_conv)
  then obtain x xs where f: "filter (\<lambda>x. mw_namespace x = ns \<and> mw_name x = name) (w_manifestWorks w) = x # xs"
    by (cases "filter (\<lambda>x. mw_namespace x = ns \<and> mw_name x = name) (w_manifestWorks w)") auto
  then have "x \<in> set (filter (\<lambda>x. mw_namespace x = ns \<and> mw_name x = name) (w_manifestWorks w))"
    by simp
  then have "mw_namespace x = ns \<and> mw_name x = name" by simp
  with f assms(2) show ?thesis
    by (simp add: Get_ManifestWork_call_def split: option.splits)
qed

lemma step_trace:
  "\<exists>sfx. w_trace (snd (processRegclusterDeletion en rc mc w)) = w_trace w @ sfx"
  by (auto simp: processRegclusterDeletion_def Delete_ManifestWork_call_def
        Delete_ManagedCluster_call_def emit_def Let_def
      split: sum.splits option.splits prod.splits)

lemma step_ordered:
  assumes o: "ordered (mc_name mc) (GetSyncerName (rc_name rc)) w" and t: "truthful en"
  shows "ordered (mc_name mc) (GetSyncerName (rc_name rc)) (snd (processRegclusterDeletion en rc mc w))"
proof (cases "Deleted_ManifestWork (mc_name mc) (GetSyncerName (rc_name rc)) \<in> set (w_trace w)")
  case True
  obtain sfx where m: "w_trace (snd (processRegclusterDeletion en rc mc w)) = w_trace w @ sfx"
    using step_trace by blast
  from o True show ?thesis
    by (simp add: ordered_def m precedes_extend)
next
  case False
  with o have has: "hasManifestWork (mc_name mc) (GetSyncerName (rc_name rc)) w"
    and nob: "Deleted_ManagedCluster (mc_name mc) \<notin> set (w_trace w)"
    by (auto simp: ordered_def)
  from t have "case fault en Get_ManifestWork_deletion of None \<Rightarrow> True | Some e \<Rightarrow> \<not> IsNotFound e"
    by (simp add: truthful_def)
  from Get_ManifestWork_found [OF has this]
  show ?thesis
    using o nob
    by (auto simp: processRegclusterDeletion_def Delete_ManifestWork_call_def emit_def Let_def
          ordered_def hasManifestWork_def precedes_append_a
        split: sum.splits option.splits)
qed

lemma teardown_ordered:
  assumes "ordered (mc_name mc) (GetSyncerName (rc_name rc)) w" and "\<forall>en \<in> set ens. truthful en"
  shows "ordered (mc_name mc) (GetSyncerName (rc_name rc)) (teardown Controller_go ens rc mc w)"
  using assms
  by (induction ens arbitrary: w) (simp_all add: processRegclusterDeletion_of_def step_ordered)


text \<open>The world of \<^verbatim>\<open>part_001\<close> after syncKcpSyncer has applied the descriptor.\<close>

lemma synced_world_part_001_eq:
  "synced_world_part_001 =
     emit (Applied [''cluster-registration/kcp_syncer_manifestwork.yaml'']
             [(''KcpSyncerName'', ''kcp-syncer-cluster-1''),
              (''KcpToken'', ''token''),
              (''KcpServer'', ''https://kcp.example:6443''),
              (''SyncTargetName'', ''cluster-1''),
              (''ManagedClusterName'', ''mc1''),
              (''RegisteredClusterNameLabel'', RegisteredClusterNamelabel),
              (''RegisteredClusterNamespaceLabel'', RegisteredClusterNamespacelabel),
              (''RegisteredClusterName'', ''cluster-1''),
              (''RegisteredClusterNamespace'', ''team-a''),
              (''LogicalCluster'', ''root:team-a''),
              (''LogicalClusterLabel'', ''root_team-a''),
              (''Image'', ''ghcr.io/kcp-dev/kcp/syncer:main'')])
       (example_world joined_rc [example_mc ''mc1'']
          [\<lparr>mw_namespace = ''mc1'', mw_name = ''kcp-syncer-cluster-1'',
            mw_labels = [RegisteredClusterNamelabel \<mapsto> ''cluster-1'',
                         RegisteredClusterNamespacelabel \<mapsto> ''team-a''],
            mw_conditions = None,
            mw_values = [(''KcpSyncerName'', ''kcp-syncer-cluster-1''),
              (''KcpToken'', ''token''),
              (''KcpServer'', ''https://kcp.example:6443''),
              (''SyncTargetName'', ''cluster-1''),
              (''ManagedClusterName'', ''mc1''),
              (''RegisteredClusterNameLabel'', RegisteredClusterNamelabel),
              (''RegisteredClusterNamespaceLabel'', RegisteredClusterNamespacelabel),
              (''RegisteredClusterName'', ''cluster-1''),
              (''RegisteredClusterNamespace'', ''team-a''),
              (''LogicalCluster'', ''root:team-a''),
              (''LogicalClusterLabel'', ''root_team-a''),
              (''Image'', ''ghcr.io/kcp-dev/kcp/syncer:main'')]\<rparr>])"
proof -
  have j: "GetConditionStatus (rcs_conditions (rc_status joined_rc)) ManagedClusterConditionJoined
     = Some ConditionTrue" by (rule example_joined)
  have n: "rc_name joined_rc = ''cluster-1''" "rc_namespace joined_rc = ''team-a''"
          "rc_location joined_rc = ''root:team-a''" "mc_name (example_mc ''mc1'') = ''mc1''"
    by (simp_all add: joined_rc_def example_rc_def example_mc_def)
  show ?thesis
    unfolding synced_world_part_001_def
    by (simp add: syncKcpSyncer_part_001_def j n Apply_SyncerManifestWork_call_def
          Get_ManifestWork_call_def example_env_def Let_def GetSyncerName_def GetSyncerPrefix_def
          getSyncerImage_part_001_def defaultSyncerImage_part_001_def colonsToUnderscores_def
          example_world_def emit_def)
qed

lemma synced_has: "hasManifestWork ''mc1'' ''kcp-syncer-cluster-1'' synced_world_part_001"
  by (simp add: synced_world_part_001_eq hasManifestWork_def example_world_def emit_def)

text \<open>
  Claim C5 fails in \<^verbatim>\<open>part_001\<close>. syncKcpSyncer of \<^verbatim>\<open>part_001\<close> has applied the descriptor
  \<^verbatim>\<open>kcp-syncer-cluster-1\<close> in the namespace of the ManagedCluster \<^verbatim>\<open>mc1\<close>. The orchestrator of
  \<^verbatim>\<open>part_001\<close> looks for the ManifestWork named \<^verbatim>\<open>appstudio\<close>, finds none, and asks the
  ManagedCluster to go, with a requeue after five seconds: the first delete it issues is the
  one of the ManagedCluster, and the descriptor is still there. Run again, it reports that
  everything is gone.
\<close>

theorem part_001_deletes_ManagedCluster_without_descriptor:
  "hasManifestWork ''mc1'' (GetSyncerName ''cluster-1'') synced_world_part_001 \<and>
   fst (processRegclusterDeletion_part_001 example_env
          (joined_rc\<lparr>rc_deletionTimestamp := Some 1\<rparr>) (example_mc ''mc1'') synced_world_part_001)
     = (\<lparr>Requeue = True, RequeueAfter = 5 * Second\<rparr>, None) \<and>
   w_trace (snd (processRegclusterDeletion_part_001 example_env
          (joined_rc\<lparr>rc_deletionTimestamp := Some 1\<rparr>) (example_mc ''mc1'') synced_world_part_001))
     = w_trace synced_world_part_001 @ [Deleted_ManagedCluster ''mc1''] \<and>
   hasManifestWork ''mc1'' (GetSyncerName ''cluster-1'')
     (snd (processRegclusterDeletion_part_001 example_env
          (joined_rc\<lparr>rc_deletionTimestamp := Some 1\<rparr>) (example_mc ''mc1'') synced_world_part_001)) \<and>
   fst (processRegclusterDeletion_part_001 example_env
          (joined_rc\<lparr>rc_deletionTimestamp := Some 1\<rparr>) empty_ManagedCluster
          (snd (processRegclusterDeletion_part_001 example_env
             (joined_rc\<lparr>rc_deletionTimestamp := Some 1\<rparr>) (example_mc ''mc1'') synced_world_part_001)))
     = (empty_Result, None)"
proof -
  have n: "mc_name (example_mc ''mc1'') = ''mc1''" "mc_name empty_ManagedCluster = []"
    by (simp_all add: example_mc_def empty_ManagedCluster_def)
  have s: "GetSyncerName ''cluster-1'' = ''kcp-syncer-cluster-1''"
    by (simp add: GetSyncerName_def GetSyncerPrefix_def)
  have step: "processRegclusterDeletion_part_001 example_env
          (joined_rc\<lparr>rc_deletionTimestamp := Some 1\<rparr>) (example_mc ''mc1'') synced_world_part_001
       = ((\<lparr>Requeue = True, RequeueAfter = 5 * Second\<rparr>, None),
          emit (Deleted_ManagedCluster ''mc1'')
            (synced_world_part_001\<lparr>w_managedClusters := []\<rparr>))"
    by (simp add: processRegclusterDeletion_part_001_def n Get_ManifestWork_call_def
          Get_ManagedServiceAccount_call_def Get_ManagedClusterAddOn_call_def
          Get_ManagedCluster_call_def Delete_ManagedCluster_call_def
          example_env_def synced_world_part_001_eq example_world_def emit_def
          ManagedServiceAccountName_def ManagedClusterAddOnName_def)
  have next_step: "fst (processRegclusterDeletion_part_001 example_env
          (joined_rc\<lparr>rc_deletionTimestamp := Some 1\<rparr>) empty_ManagedCluster
          (emit (Deleted_ManagedCluster ''mc1'') (synced_world_part_001\<lparr>w_managedClusters := []\<rparr>)))
     = (empty_Result, None)"
    by (simp add: processRegclusterDeletion_part_001_def n Get_ManifestWork_call_def
          Get_ManagedServiceAccount_call_def Get_ManagedClusterAddOn_call_def
          Get_ManagedCluster_call_def
          example_env_def synced_world_part_001_eq example_world_def emit_def
          ManagedServiceAccountName_def ManagedClusterAddOnName_def)
  show ?thesis
    unfolding step s
    using synced_has next_step
    by (simp add: emit_def hasManifestWork_def)
qed

subsection \<open>Sleeping\<close>

text \<open>No step of the controller file puts the worker to sleep: whatever the environment does,
  a reconcile ends with the worker having slept as long as it had before.\<close>

lemma slept_append [simp]: "slept (xs @ ys) = slept xs + slept ys"
  by (induction xs rule: slept.induct) auto

lemma trace_emit [simp]: "w_trace (emit ev w) = w_trace w @ [ev]"
  by (simp add: emit_def)

lemma quiet_Update:
  "Update_call en c r w = (e, w') \<Longrightarrow> slept (w_trace w') = slept (w_trace w)"
  by (auto simp: Update_call_def split: option.splits if_splits)

lemma quiet_Patch:
  "Patch_Status_call en c r w = (e, w') \<Longrightarrow> slept (w_trace w') = slept (w_trace w)"
  by (auto simp: Patch_Status_call_def split: option.splits if_splits)

lemma quiet_Apply:
  "Apply_call en c fs vs w = (e, w') \<Longrightarrow> slept (w_trace w') = slept (w_trace w)"
  by (auto simp: Apply_call_def split: option.splits)

lemma quiet_createManagedCluster_of:
  "createManagedCluster_of g en rc cn w = (e, w') \<Longrightarrow> slept (w_trace w') = slept (w_trace w)"
  by (cases g)
     (auto simp: createManagedCluster_of_def createManagedCluster_def createManagedCluster_part_001_def
        Create_ManagedCluster_call_def Let_def split: sum.splits option.splits prod.splits if_splits)

lemma quiet_processRegclusterDeletion_of:
  "processRegclusterDeletion_of g en rc mc w = (r, w') \<Longrightarrow> slept (w_trace w') = slept (w_trace w)"
  by (cases g)
     (auto simp: processRegclusterDeletion_of_def processRegclusterDeletion_def
        processRegclusterDeletion_part_001_def Delete_ManifestWork_call_def
        Delete_ManagedCluster_call_def Delete_ManagedServiceAccount_call_def
        Delete_ManagedClusterAddOn_call_def Let_def
      split: sum.splits option.splits prod.splits if_splits)

lemma quiet_Reconcile_deletion:
  "Reconcile_deletion g en rc mc w = (r, w') \<Longrightarrow> slept (w_trace w') = slept (w_trace w)"
  by (auto simp: Reconcile_deletion_def Let_def split: prod.splits option.splits if_splits
        dest!: quiet_processRegclusterDeletion_of quiet_Update)

lemma quiet_updateImportCommand:
  "updateImportCommand en rc mc w = (r, w') \<Longrightarrow> slept (w_trace w') = slept (w_trace w)"
  by (auto simp: updateImportCommand_def Let_def split: sum.splits prod.splits option.splits if_splits
        dest!: quiet_Apply quiet_Patch)

lemma quiet_syncServiceAccount:
  "syncServiceAccount en rc w = (r, w') \<Longrightarrow> slept (w_trace w') = slept (w_trace w)"
  by (auto simp: syncServiceAccount_def Create_ServiceAccount_call_def Let_def
        split: sum.splits prod.splits option.splits if_splits)

lemma quiet_syncKcpSyncer:
  "syncKcpSyncer en rc mc token w = (r, w') \<Longrightarrow> slept (w_trace w') = slept (w_trace w)"
  by (auto simp: syncKcpSyncer_def Apply_SyncerManifestWork_call_def Let_def
        split: sum.splits prod.splits option.splits if_splits)

lemma quiet_updateRegisteredClusterStatus:
  "updateRegisteredClusterStatus en rc mc w = (r, w') \<Longrightarrow> slept (w_trace w') = slept (w_trace w)"
  unfolding updateRegisteredClusterStatus_def Let_def
  by (auto split: prod.splits option.splits dest!: quiet_Patch)

lemma quiet_Reconcile_sync:
  "Reconcile_sync Controller_go en rc mc w = (r, w') \<Longrightarrow> slept (w_trace w') = slept (w_trace w)"
  by (auto simp: Reconcile_sync_def syncServiceAccount_of_def syncKcpSyncer_of_def
        split: prod.splits option.splits if_splits
        dest!: quiet_updateImportCommand quiet_syncServiceAccount quiet_syncKcpSyncer
              quiet_updateRegisteredClusterStatus)

lemma Reconcile_controller_never_sleeps:
  "slept (w_trace (snd (Reconcile Controller_go en req w))) = slept (w_trace w)"
proof -
  obtain r w' where R: "Reconcile Controller_go en req w = (r, w')"
    by (cases "Reconcile Controller_go en req w")
  then have "slept (w_trace w') = slept (w_trace w)"
    by (auto simp: Reconcile_def Reconcile_prepare_def Let_def
          split: sum.splits prod.splits option.splits if_splits
          dest!: quiet_Update quiet_createManagedCluster_of quiet_Reconcile_deletion
                 quiet_Reconcile_sync)
  with R show ?thesis by simp
qed


text \<open>In \<^verbatim>\<open>part_001\<close>, syncServiceAccount sleeps twenty seconds on every path on which the
  ServiceAccount is there or has just been created.\<close>

lemma syncServiceAccount_part_001_sleeps:
  "slept (w_trace (snd (syncServiceAccount_part_001 en rc w))) =
     slept (w_trace w) +
     (case Get_ServiceAccount_call en (rc_location rc) GetSyncerServiceAccountName w of
        Inr sa \<Rightarrow> 20 * Second
      | Inl err \<Rightarrow>
          if \<not> IsNotFound err then 0
          else (case fst (Create_ServiceAccount_call en
                            \<lparr>sa_scope = rc_location rc, sa_name = GetSyncerServiceAccountName,
                             sa_secrets = []\<rparr> w) of
                  Inl cerr \<Rightarrow> 0
                | Inr sa \<Rightarrow> 20 * Second))"
  by (auto simp: syncServiceAccount_part_001_def Create_ServiceAccount_call_def Apply_call_def
        Let_def split: sum.splits prod.splits option.splits if_splits)


text \<open>A reconcile of \<^verbatim>\<open>part_001\<close> in the world with the import secret, step by step.\<close>

lemma example_mc_selected_part_001:
  "matchesLabels (correlationLabels_part_001 example_rc) (mc_labels (example_mc n))"
  using label_names_distinct
  by (simp add: example_mc_def matchesLabels_def correlationLabels_part_001_def
        getRegisteredClusterLabels_def example_rc_def)

lemma importable_selected:
  "selected (correlationLabels_part_001 example_rc) importable_world = [example_mc ''mc1'']"
  using example_mc_selected_part_001
  by (simp add: selected_def importable_world_def example_world_def)

lemma importable_get:
  "Get_RegisteredCluster_call example_env example_req importable_world = Inr example_rc"
  by (simp add: Get_RegisteredCluster_call_def example_env_def example_req_def
        importable_world_def example_world_def example_rc_def)

lemma importable_update:
  "Update_call example_env Update_AddFinalizer example_rc importable_world
     = (None, emit (Updated_RegisteredCluster [RegisteredClusterFinalizer]) importable_world)"
  by (simp add: Update_call_def example_env_def importable_world_def example_world_def
        example_rc_def sameKey_def emit_def)

lemma importable_sync:
  "slept (w_trace (snd (Reconcile_sync Part_001 example_env example_rc (example_mc ''mc1'')
                          (emit (Updated_RegisteredCluster [RegisteredClusterFinalizer])
                             importable_world))))
     = 20 * Second"
  by (simp add: Reconcile_sync_def updateImportCommand_def Get_Secret_call_def example_env_def
        importable_world_def example_world_def import_secret_def example_mc_def
        empty_ManagedCluster_def Apply_call_def Patch_Status_call_def example_rc_def sameKey_def
        syncSyncTarget_def syncServiceAccount_of_def syncServiceAccount_part_001_def
        Get_ServiceAccount_call_def Create_ServiceAccount_call_def getKcpSyncerSAToken_def
        Let_def emit_def Second_def)

text \<open>
  Claim C9 fails in \<^verbatim>\<open>part_001\<close>. The RegisteredCluster is not marked for deletion, its
  ManagedCluster and the import secret are there, and no call fails: the reconcile of
  \<^verbatim>\<open>part_001\<close> reaches syncServiceAccount, and the worker sleeps twenty seconds inside it.
\<close>

theorem part_001_reconcile_sleeps:
  "slept (w_trace importable_world) = 0 \<and>
   slept (w_trace (snd (Reconcile Part_001 example_env example_req importable_world))) = 20 * Second"
proof -
  have f: "fault example_env GetHubCluster = None" by (simp add: example_env_def)
  have a: "AddFinalizer (rc_finalizers example_rc) RegisteredClusterFinalizer
             = [RegisteredClusterFinalizer]"
    by (simp add: AddFinalizer_def example_rc_def)
  have r: "example_rc\<lparr>rc_finalizers := [RegisteredClusterFinalizer]\<rparr> = example_rc"
    by (simp add: example_rc_def)
  have d: "rc_deletionTimestamp example_rc = None" by (simp add: example_rc_def)
  have l: "fault example_env List_ManagedCluster_create = None"
          "fault example_env List_ManagedCluster_get = None"
    by (simp_all add: example_env_def)
  have 0: "slept (w_trace importable_world) = 0"
    by (simp add: importable_world_def example_world_def)
  have "slept (w_trace (snd (Reconcile Part_001 example_env example_req importable_world))) = 20 * Second"
    by (simp add: Reconcile_def Reconcile_prepare_def importable_get f a r importable_update d
          createManagedCluster_of_def createManagedCluster_part_001_def
          getManagedCluster_of_def getManagedCluster_part_001_def
          List_ManagedClusters_def l importable_selected importable_sync)
  with 0 show ?thesis by simp
qed

subsection \<open>Reconcile: waiting for the import secret\<close>

lemma Get_Secret_absent:
  assumes "\<not> list_ex (\<lambda>s. sec_scope s = scope \<and> sec_name s = name) secrets"
      and "case fault en c of None \<Rightarrow> True | Some e \<Rightarrow> IsNotFound e"
  shows "\<exists>e. Get_Secret_call en c secrets scope name = Inl e \<and> IsNotFound e"
proof -
  have "filter (\<lambda>x. sec_scope x = scope \<and> sec_name x = name) secrets = []"
    using assms(1) by (auto simp: list_ex_iff filter_empty_conv)
  with assms(2) show ?thesis
    by (auto simp: Get_Secret_call_def split: option.splits)
qed

text \<open>
  Claim C7. A reconcile that gets as far as the import command (the RegisteredCluster is read,
  the hub resolved, the finalizer stored, the ManagedCluster ensured and resolved), for a
  RegisteredCluster that is not marked for deletion and whose import secret
  \<^verbatim>\<open><managedcluster-name>-import\<close> is not on the hub, returns a requeue after one second and no
  error, and leaves the world as it was at that point. Both files.
\<close>

theorem absent_import_secret_requeues:
  assumes prepared: "Reconcile_prepare g en req w = Inr (rc, mc, w2)"
      and active: "rc_deletionTimestamp rc = None"
      and absent: "\<not> hasImportSecret mc w2"
      and answer: "case fault en Get_ImportSecret of None \<Rightarrow> True | Some e \<Rightarrow> IsNotFound e"
  shows "Reconcile g en req w = ((\<lparr>Requeue = True, RequeueAfter = 1 * Second\<rparr>, None), w2)"
proof -
  from absent have "\<not> list_ex (\<lambda>s. sec_scope s = mc_name mc \<and> sec_name s = mc_name mc @ ''-import'')
                       (w_hubSecrets w2)"
    by (simp add: hasImportSecret_def)
  from Get_Secret_absent [OF this answer]
  obtain e where e: "Get_Secret_call en Get_ImportSecret (w_hubSecrets w2) (mc_name mc)
                       (mc_name mc @ ''-import'') = Inl e" and nf: "IsNotFound e"
    by blast
  then have "updateImportCommand en rc mc w2 = ((rc, Some (WithStack e)), w2)"
    by (simp add: updateImportCommand_def)
  with nf have "Reconcile_sync g en rc mc w2 = ((\<lparr>Requeue = True, RequeueAfter = 1 * Second\<rparr>, None), w2)"
    by (simp add: Reconcile_sync_def)
  with prepared active show ?thesis
    by (simp add: Reconcile_def)
qed

text \<open>The theorem at a world with the ManagedCluster \<^verbatim>\<open>mc1\<close> and no import secret.\<close>

lemma example_prepare:
  "Reconcile_prepare Controller_go example_env example_req (example_world example_rc [example_mc ''mc1''] [])
     = Inr (example_rc, example_mc ''mc1'',
            emit (Updated_RegisteredCluster [RegisteredClusterFinalizer])
              (example_world example_rc [example_mc ''mc1''] []))"
proof -
  let ?w = "example_world example_rc [example_mc ''mc1''] []"
  have g: "Get_RegisteredCluster_call example_env example_req ?w = Inr example_rc"
    by (simp add: Get_RegisteredCluster_call_def example_env_def example_req_def
          example_world_def example_rc_def)
  have f: "fault example_env GetHubCluster = None" 
          "fault example_env List_ManagedCluster_create = None"
          "fault example_env List_ManagedCluster_get = None"
    by (simp_all add: example_env_def)
  have a: "example_rc\<lparr>rc_finalizers := AddFinalizer (rc_finalizers example_rc) RegisteredClusterFinalizer\<rparr>
             = example_rc"
    by (simp add: AddFinalizer_def example_rc_def)
  have u: "Update_call example_env Update_AddFinalizer example_rc ?w
     = (None, emit (Updated_RegisteredCluster [RegisteredClusterFinalizer]) ?w)"
    by (simp add: Update_call_def example_env_def example_world_def
          example_rc_def sameKey_def emit_def)
  have d: "rc_deletionTimestamp example_rc = None" "req_clusterName example_req = ''ws''"
    by (simp_all add: example_rc_def example_req_def)
  have s: "selected (getRegisteredClusterLabels example_rc ''ws'') ?w = [example_mc ''mc1'']"
    by (simp add: example_selected example_mc_selected)
  show ?thesis
    by (simp add: Reconcile_prepare_def g f a u d createManagedCluster_of_def createManagedCluster_def
          getManagedCluster_of_def getManagedCluster_def List_ManagedClusters_def s)
qed

theorem absent_import_secret_requeues_witness:
  "Reconcile Controller_go example_env example_req (example_world example_rc [example_mc ''mc1''] [])
     = ((\<lparr>Requeue = True, RequeueAfter = 1 * Second\<rparr>, None),
        emit (Updated_RegisteredCluster [RegisteredClusterFinalizer])
          (example_world example_rc [example_mc ''mc1''] []))"
proof -
  have 1: "rc_deletionTimestamp example_rc = None" by (simp add: example_rc_def)
  have 2: "\<not> hasImportSecret (example_mc ''mc1'')
               (emit (Updated_RegisteredCluster [RegisteredClusterFinalizer])
                  (example_world example_rc [example_mc ''mc1''] []))"
    by (simp add: hasImportSecret_def emit_def example_world_def)
  have 3: "case fault example_env Get_ImportSecret of None \<Rightarrow> True | Some e \<Rightarrow> IsNotFound e"
    by (simp add: example_env_def)
  from absent_import_secret_requeues [OF example_prepare 1 2 3] show ?thesis .
qed


subsection \<open>Reconcile: the finalizer\<close>

lemma keeps_refl [simp]: "keeps_finalizer w w"
  by (simp add: keeps_finalizer_def)

lemma keeps_trans: "keeps_finalizer w w1 \<Longrightarrow> keeps_finalizer w1 w2 \<Longrightarrow> keeps_finalizer w w2"
  by (auto simp: keeps_finalizer_def)

lemma keeps_emit: "\<not> clears_finalizer ev \<Longrightarrow> keeps_finalizer w w' \<Longrightarrow> keeps_finalizer w (emit ev w')"
  by (auto simp: keeps_finalizer_def emit_def)

lemma keeps_field [simp]:
  "keeps_finalizer w (w'\<lparr>w_registeredClusters := a\<rparr>) = keeps_finalizer w w'"
  "keeps_finalizer w (w'\<lparr>w_managedClusters := b\<rparr>) = keeps_finalizer w w'"
  "keeps_finalizer w (w'\<lparr>w_manifestWorks := c\<rparr>) = keeps_finalizer w w'"
  "keeps_finalizer w (w'\<lparr>w_managedServiceAccounts := d\<rparr>) = keeps_finalizer w w'"
  "keeps_finalizer w (w'\<lparr>w_managedClusterAddOns := e\<rparr>) = keeps_finalizer w w'"
  "keeps_finalizer w (w'\<lparr>w_serviceAccounts := f\<rparr>) = keeps_finalizer w w'"
  by (simp_all add: keeps_finalizer_def)

lemma keeps_not_cleared: "keeps_finalizer w w' \<Longrightarrow> \<not> finalizer_cleared w w'"
  by (auto simp: keeps_finalizer_def finalizer_cleared_def new_events_def)

lemma keeps_Update_with:
  "Update_call en c r w = (e, w') \<Longrightarrow> RegisteredClusterFinalizer \<in> set (rc_finalizers r)
     \<Longrightarrow> keeps_finalizer w w'"
  by (auto simp: Update_call_def intro!: keeps_emit split: option.splits if_splits)

lemma keeps_Patch: "Patch_Status_call en c r w = (e, w') \<Longrightarrow> keeps_finalizer w w'"
  by (auto simp: Patch_Status_call_def intro!: keeps_emit split: option.splits if_splits)

lemma keeps_Apply: "Apply_call en c fs vs w = (e, w') \<Longrightarrow> keeps_finalizer w w'"
  by (auto simp: Apply_call_def intro!: keeps_emit split: option.splits)

lemma keeps_createManagedCluster_of:
  "createManagedCluster_of g en rc cn w = (e, w') \<Longrightarrow> keeps_finalizer w w'"
  by (cases g)
     (auto simp: createManagedCluster_of_def createManagedCluster_def createManagedCluster_part_001_def
        Create_ManagedCluster_call_def Let_def intro!: keeps_emit
      split: sum.splits option.splits prod.splits if_splits)

lemma keeps_processRegclusterDeletion_of:
  "processRegclusterDeletion_of g en rc mc w = (r, w') \<Longrightarrow> keeps_finalizer w w'"
  by (cases g)
     (auto simp: processRegclusterDeletion_of_def processRegclusterDeletion_def
        processRegclusterDeletion_part_001_def Delete_ManifestWork_call_def
        Delete_ManagedCluster_call_def Delete_ManagedServiceAccount_call_def
        Delete_ManagedClusterAddOn_call_def Let_def intro!: keeps_emit
      split: sum.splits option.splits prod.splits if_splits)

lemma keeps_updateImportCommand:
  "updateImportCommand en rc mc w = (r, w') \<Longrightarrow> keeps_finalizer w w'"
  by (auto simp: updateImportCommand_def Let_def
        split: sum.splits prod.splits option.splits if_splits
        dest!: keeps_Apply keeps_Patch intro: keeps_trans)

lemma keeps_syncServiceAccount_of:
  "syncServiceAccount_of g en rc w = (r, w') \<Longrightarrow> keeps_finalizer w w'"
  by (cases g)
     (auto simp: syncServiceAccount_of_def syncServiceAccount_def syncServiceAccount_part_001_def
        Create_ServiceAccount_call_def Apply_call_def Let_def intro!: keeps_emit
      split: sum.splits prod.splits option.splits if_splits)

lemma keeps_syncKcpSyncer_of:
  "syncKcpSyncer_of g en rc mc token w = (r, w') \<Longrightarrow> keeps_finalizer w w'"
  by (cases g)
     (auto simp: syncKcpSyncer_of_def syncKcpSyncer_def syncKcpSyncer_part_001_def
        Apply_SyncerManifestWork_call_def Let_def intro!: keeps_emit
      split: sum.splits prod.splits option.splits if_splits)

lemma keeps_updateRegisteredClusterStatus:
  "updateRegisteredClusterStatus en rc mc w = (r, w') \<Longrightarrow> keeps_finalizer w w'"
  unfolding updateRegisteredClusterStatus_def Let_def
  by (auto split: prod.splits option.splits dest!: keeps_Patch)

lemma keeps_Reconcile_sync:
  "Reconcile_sync g en rc mc w = (r, w') \<Longrightarrow> keeps_finalizer w w'"
  by (auto simp: Reconcile_sync_def
        split: prod.splits option.splits if_splits
        dest!: keeps_updateImportCommand keeps_syncServiceAccount_of keeps_syncKcpSyncer_of
               keeps_updateRegisteredClusterStatus
        intro: keeps_trans)


lemma keeps_Update_add:
  "Update_call en c (r\<lparr>rc_finalizers := AddFinalizer (rc_finalizers r) RegisteredClusterFinalizer\<rparr>) w
     = (e, w') \<Longrightarrow> keeps_finalizer w w'"
  by (erule keeps_Update_with) (simp add: AddFinalizer_def)

lemma keeps_Reconcile_prepare:
  "(Reconcile_prepare g en req w = Inl (r, w1) \<longrightarrow> keeps_finalizer w w1) \<and>
   (Reconcile_prepare g en req w = Inr (rc, mc, w2) \<longrightarrow> keeps_finalizer w w2)"
  by (auto simp: Reconcile_prepare_def Let_def
        split: sum.splits prod.splits option.splits if_splits
        dest!: keeps_Update_add keeps_createManagedCluster_of
        intro: keeps_trans)

lemma absent_ManifestWork:
  "Get_ManifestWork_call en c ns name w = Inl e \<Longrightarrow> IsNotFound e
     \<Longrightarrow> (case fault en c of None \<Rightarrow> True | Some e' \<Rightarrow> \<not> IsNotFound e')
     \<Longrightarrow> \<not> hasManifestWork ns name w"
  by (auto simp: Get_ManifestWork_call_def hasManifestWork_def list_ex_iff filter_empty_conv
        split: option.splits list.splits)

lemma absent_ManagedCluster:
  "Get_ManagedCluster_call en c name w = Inl e \<Longrightarrow> IsNotFound e
     \<Longrightarrow> (case fault en c of None \<Rightarrow> True | Some e' \<Rightarrow> \<not> IsNotFound e')
     \<Longrightarrow> \<not> hasManagedCluster name w"
  by (auto simp: Get_ManagedCluster_call_def hasManagedCluster_def list_ex_iff filter_empty_conv
        split: option.splits list.splits)

lemma absent_ManagedServiceAccount:
  "Get_ManagedServiceAccount_call en ns name w = Inl e \<Longrightarrow> IsNotFound e
     \<Longrightarrow> (case fault en Get_ManagedServiceAccount of None \<Rightarrow> True | Some e' \<Rightarrow> \<not> IsNotFound e')
     \<Longrightarrow> (ns, name) \<notin> set (w_managedServiceAccounts w)"
  by (auto simp: Get_ManagedServiceAccount_call_def split: option.splits if_splits)

lemma absent_ManagedClusterAddOn:
  "Get_ManagedClusterAddOn_call en ns name w = Inl e \<Longrightarrow> IsNotFound e
     \<Longrightarrow> (case fault en Get_ManagedClusterAddOn of None \<Rightarrow> True | Some e' \<Rightarrow> \<not> IsNotFound e')
     \<Longrightarrow> (ns, name) \<notin> set (w_managedClusterAddOns w)"
  by (auto simp: Get_ManagedClusterAddOn_call_def split: option.splits if_splits)

lemma truthful_cases:
  "truthful en \<Longrightarrow>
     (case fault en Get_ManifestWork_deletion of None \<Rightarrow> True | Some e \<Rightarrow> \<not> IsNotFound e) \<and>
     (case fault en Get_ManagedServiceAccount of None \<Rightarrow> True | Some e \<Rightarrow> \<not> IsNotFound e) \<and>
     (case fault en Get_ManagedClusterAddOn of None \<Rightarrow> True | Some e \<Rightarrow> \<not> IsNotFound e) \<and>
     (case fault en Get_ManagedCluster_deletion of None \<Rightarrow> True | Some e \<Rightarrow> \<not> IsNotFound e)"
  by (simp add: truthful_def)

lemma torn_down:
  assumes "processRegclusterDeletion_of g en rc mc w = ((r, None), w')" and "\<not> Requeue r"
  shows "r = empty_Result \<and> w' = w \<and> (truthful en \<longrightarrow> \<not> stage_object_present g rc mc w)"
proof (cases g)
  case Controller_go
  with assms show ?thesis
    by (auto simp: processRegclusterDeletion_of_def processRegclusterDeletion_def
          Delete_ManifestWork_call_def Delete_ManagedCluster_call_def Let_def
          stage_object_present_def
        split: sum.splits option.splits if_splits
        dest!: truthful_cases dest: absent_ManifestWork absent_ManagedCluster)
next
  case Part_001
  with assms show ?thesis
    by (auto simp: processRegclusterDeletion_of_def processRegclusterDeletion_part_001_def
          Delete_ManifestWork_call_def Delete_ManagedCluster_call_def
          Delete_ManagedServiceAccount_call_def Delete_ManagedClusterAddOn_call_def Let_def
          stage_object_present_def
        split: sum.splits option.splits if_splits
        dest!: truthful_cases
        dest: absent_ManifestWork absent_ManagedCluster absent_ManagedServiceAccount
              absent_ManagedClusterAddOn)
qed

text \<open>
  Claim C1, as amended. A reconcile stores the RegisteredCluster without the finalizer only
  when the RegisteredCluster is marked for deletion and the orchestrator, run for the
  ManagedCluster that getManagedCluster returned, returned neither an error nor a requeue:
  every stage before the last and the last one got NotFound, and the orchestrator changed
  nothing. With truthful Gets, none of the objects the stages address (the descriptor and the
  ManagedCluster under the name of that ManagedCluster; in \<^verbatim>\<open>part_001\<close> the manifest work, the
  grant, the add-on and the ManagedCluster) is on the hub then: while one of them is, the
  finalizer stays. Both files, every environment, every world.
\<close>

theorem finalizer_cleared_only_after_teardown:
  assumes cleared: "finalizer_cleared w (snd (Reconcile g en req w))"
  shows "\<exists>rc mc w2. Reconcile_prepare g en req w = Inr (rc, mc, w2) \<and>
           rc_deletionTimestamp rc \<noteq> None \<and>
           processRegclusterDeletion_of g en rc mc w2 = ((empty_Result, None), w2) \<and>
           (truthful en \<longrightarrow> \<not> stage_object_present g rc mc w2)"
proof (cases "Reconcile_prepare g en req w")
  case (Inl returned)
  obtain r w1 where "returned = (r, w1)" by (cases returned)
  with Inl keeps_Reconcile_prepare [of g en req w r w1] have "keeps_finalizer w (snd (Reconcile g en req w))"
    by (simp add: Reconcile_def)
  with cleared show ?thesis by (simp add: keeps_not_cleared)
next
  case (Inr going)
  obtain rc mc w2 where going: "going = (rc, mc, w2)" by (cases going)
  with Inr have p: "Reconcile_prepare g en req w = Inr (rc, mc, w2)" by simp
  with keeps_Reconcile_prepare [of g en req w _ _ rc mc w2] have k: "keeps_finalizer w w2" by simp
  show ?thesis
  proof (cases "rc_deletionTimestamp rc = None")
    case True
    obtain r w' where s: "Reconcile_sync g en rc mc w2 = (r, w')" by (cases "Reconcile_sync g en rc mc w2")
    with keeps_Reconcile_sync have "keeps_finalizer w2 w'" by blast
    with k have "keeps_finalizer w w'" by (rule keeps_trans)
    with cleared p True s show ?thesis by (simp add: Reconcile_def keeps_not_cleared)
  next
    case False
    obtain r err w3 where o: "processRegclusterDeletion_of g en rc mc w2 = ((r, err), w3)"
      by (metis prod.collapse)
    then have k3: "keeps_finalizer w2 w3" by (rule keeps_processRegclusterDeletion_of)
    show ?thesis
    proof (cases "err \<noteq> None \<or> Requeue r")
      case True
      with o have "Reconcile_deletion g en rc mc w2 = ((r, err), w3)"
        by (auto simp: Reconcile_deletion_def)
      with p False have "snd (Reconcile g en req w) = w3" by (simp add: Reconcile_def)
      moreover from k k3 have "keeps_finalizer w w3" by (rule keeps_trans)
      ultimately show ?thesis using cleared by (simp add: keeps_not_cleared)
    next
      case finished: False
      with finished o torn_down [of g en rc mc w2 r w3] 
      have "r = empty_Result \<and> w3 = w2 \<and> (truthful en \<longrightarrow> \<not> stage_object_present g rc mc w2)"
        by simp
      with o finished p False show ?thesis by simp
    qed
  qed
qed

text \<open>The last reconcile of a teardown, in the controller file: the RegisteredCluster is marked
  for deletion and getManagedCluster returns the empty ManagedCluster.\<close>

lemma deleting_selected:
  "selected (getRegisteredClusterLabels deleting_rc ''ws'') (deleting_world mcs)
     = filter (\<lambda>m. matchesLabels (getRegisteredClusterLabels example_rc ''ws'') (mc_labels m)) mcs"
  by (simp add: deleting_rc_def deleting_world_def labels_ignore_deletion example_selected)

lemma deleting_prepare:
  assumes "length (selected (getRegisteredClusterLabels deleting_rc ''ws'') (deleting_world mcs)) \<noteq> 1"
  shows "Reconcile_prepare Controller_go example_env example_req (deleting_world mcs)
     = Inr (deleting_rc, empty_ManagedCluster,
            emit (Updated_RegisteredCluster [RegisteredClusterFinalizer]) (deleting_world mcs))"
proof -
  let ?w = "deleting_world mcs"
  have g: "Get_RegisteredCluster_call example_env example_req ?w = Inr deleting_rc"
    by (simp add: Get_RegisteredCluster_call_def example_env_def example_req_def
          example_world_def example_rc_def deleting_rc_def deleting_world_def)
  have f: "fault example_env GetHubCluster = None" 
          "fault example_env List_ManagedCluster_get = None"
    by (simp_all add: example_env_def)
  have a: "deleting_rc\<lparr>rc_finalizers := AddFinalizer (rc_finalizers deleting_rc) RegisteredClusterFinalizer\<rparr>
             = deleting_rc"
    by (simp add: AddFinalizer_def example_rc_def deleting_rc_def)
  have u: "Update_call example_env Update_AddFinalizer deleting_rc ?w
     = (None, emit (Updated_RegisteredCluster [RegisteredClusterFinalizer]) ?w)"
    by (simp add: Update_call_def example_env_def example_world_def
          example_rc_def sameKey_def emit_def deleting_rc_def deleting_world_def)
  have d: "rc_deletionTimestamp deleting_rc = Some 1" "req_clusterName example_req = ''ws''"
    by (simp_all add: deleting_rc_def example_req_def)
  show ?thesis
    using assms d
    by (simp add: Reconcile_prepare_def g f a u getManagedCluster_of_def getManagedCluster_def
          List_ManagedClusters_def)
qed

lemma deleting_teardown:
  assumes "\<not> list_ex (\<lambda>x. mc_name x = []) mcs"
  shows "Reconcile_deletion Controller_go example_env deleting_rc empty_ManagedCluster
           (emit (Updated_RegisteredCluster [RegisteredClusterFinalizer]) (deleting_world mcs))
     = ((empty_Result, None),
        emit (Updated_RegisteredCluster [])
          ((emit (Updated_RegisteredCluster [RegisteredClusterFinalizer]) (deleting_world mcs))
             \<lparr>w_registeredClusters := []\<rparr>))"
proof -
  let ?w1 = "emit (Updated_RegisteredCluster [RegisteredClusterFinalizer]) (deleting_world mcs)"
  have nm: "filter (\<lambda>x. mc_name x = []) mcs = []"
    using assms by (auto simp: list_ex_iff filter_empty_conv)
  have o: "processRegclusterDeletion example_env deleting_rc empty_ManagedCluster ?w1
             = ((empty_Result, None), ?w1)"
    using nm
    by (simp add: processRegclusterDeletion_def Get_ManifestWork_call_def Get_ManagedCluster_call_def
          example_env_def empty_ManagedCluster_def deleting_world_def example_world_def emit_def)
  have r: "RemoveFinalizer (rc_finalizers deleting_rc) RegisteredClusterFinalizer = []"
    by (simp add: RemoveFinalizer_def deleting_rc_def example_rc_def)
  have u: "Update_call example_env Update_RemoveFinalizer (deleting_rc\<lparr>rc_finalizers := []\<rparr>) ?w1
             = (None, emit (Updated_RegisteredCluster []) (?w1\<lparr>w_registeredClusters := []\<rparr>))"
    by (simp add: Update_call_def example_env_def deleting_world_def example_world_def emit_def
          sameKey_def deleting_rc_def example_rc_def)
  show ?thesis
    by (simp add: Reconcile_deletion_def processRegclusterDeletion_of_def o r u empty_Result_def)
qed

lemma deleting_reconcile:
  assumes "length (selected (getRegisteredClusterLabels deleting_rc ''ws'') (deleting_world mcs)) \<noteq> 1"
      and "\<not> list_ex (\<lambda>x. mc_name x = []) mcs"
  shows "Reconcile Controller_go example_env example_req (deleting_world mcs)
     = ((empty_Result, None),
        emit (Updated_RegisteredCluster [])
          ((emit (Updated_RegisteredCluster [RegisteredClusterFinalizer]) (deleting_world mcs))
             \<lparr>w_registeredClusters := []\<rparr>))"
proof -
  have d: "rc_deletionTimestamp deleting_rc = Some 1" by (simp add: deleting_rc_def)
  show ?thesis
    by (simp add: Reconcile_def deleting_prepare [OF assms(1)] d deleting_teardown [OF assms(2)])
qed

lemma deleting_cleared:
  "finalizer_cleared (deleting_world mcs)
     (emit (Updated_RegisteredCluster [])
          ((emit (Updated_RegisteredCluster [RegisteredClusterFinalizer]) (deleting_world mcs))
             \<lparr>w_registeredClusters := []\<rparr>))"
  by (simp add: finalizer_cleared_def new_events_def emit_def deleting_world_def example_world_def)

lemma example_truthful: "truthful example_env"
  by (simp add: truthful_def example_env_def)

text \<open>The theorem at the world in which every derived object is gone: the finalizer is
  cleared, and the conclusion holds.\<close>

theorem finalizer_cleared_only_after_teardown_witness:
  "finalizer_cleared (deleting_world [])
     (snd (Reconcile Controller_go example_env example_req (deleting_world []))) \<and>
   (\<exists>rc mc w2. Reconcile_prepare Controller_go example_env example_req (deleting_world [])
                  = Inr (rc, mc, w2) \<and>
        rc_deletionTimestamp rc \<noteq> None \<and>
        processRegclusterDeletion_of Controller_go example_env rc mc w2 = ((empty_Result, None), w2) \<and>
        \<not> stage_object_present Controller_go rc mc w2)"
proof -
  have s: "length (selected (getRegisteredClusterLabels deleting_rc ''ws'') (deleting_world [])) \<noteq> 1"
    by (simp add: deleting_selected)
  have n: "\<not> list_ex (\<lambda>x. mc_name x = []) ([] :: ManagedCluster list)" by simp
  have c: "finalizer_cleared (deleting_world [])
     (snd (Reconcile Controller_go example_env example_req (deleting_world [])))"
    by (simp add: deleting_reconcile [OF s n] deleting_cleared)
  from finalizer_cleared_only_after_teardown [OF c] example_truthful c
  show ?thesis by blast
qed

text \<open>Claim C1 as stated fails: the RegisteredCluster is marked for deletion and two
  ManagedClusters carry its correlation labels. getManagedCluster returns the empty
  ManagedCluster, the stages find nothing under its empty name, and the reconcile clears the
  finalizer (the server removes the RegisteredCluster) while both ManagedClusters are still on
  the hub.\<close>

theorem finalizer_cleared_with_two_ManagedClusters:
  "selected (getRegisteredClusterLabels deleting_rc ''ws'') (deleting_world [example_mc ''a'', example_mc ''b''])
     = [example_mc ''a'', example_mc ''b''] \<and>
   finalizer_cleared (deleting_world [example_mc ''a'', example_mc ''b''])
     (snd (Reconcile Controller_go example_env example_req
             (deleting_world [example_mc ''a'', example_mc ''b'']))) \<and>
   w_registeredClusters (snd (Reconcile Controller_go example_env example_req
             (deleting_world [example_mc ''a'', example_mc ''b'']))) = [] \<and>
   selected (getRegisteredClusterLabels deleting_rc ''ws'')
     (snd (Reconcile Controller_go example_env example_req
             (deleting_world [example_mc ''a'', example_mc ''b''])))
     = [example_mc ''a'', example_mc ''b'']"
proof -
  let ?mcs = "[example_mc ''a'', example_mc ''b'']"
  have sel: "selected (getRegisteredClusterLabels deleting_rc ''ws'') (deleting_world ?mcs) = ?mcs"
    by (simp add: deleting_selected example_mc_selected)
  then have s: "length (selected (getRegisteredClusterLabels deleting_rc ''ws'') (deleting_world ?mcs)) \<noteq> 1"
    by simp
  have n: "\<not> list_ex (\<lambda>x. mc_name x = []) ?mcs" by (simp add: example_mc_def)
  have after: "selected (getRegisteredClusterLabels deleting_rc ''ws'')
          (emit (Updated_RegisteredCluster [])
            ((emit (Updated_RegisteredCluster [RegisteredClusterFinalizer]) (deleting_world ?mcs))
               \<lparr>w_registeredClusters := []\<rparr>)) = ?mcs"
    using sel by (simp add: selected_def emit_def)
  show ?thesis
    using sel after
    by (simp add: deleting_reconcile [OF s n] deleting_cleared) (simp add: emit_def)
qed

end
